theory Spec2Isabelle
  imports Complex_Main "HOL-Library.Sublist"
begin

section \<open>JavaScript values\<close>

text \<open>
  A JavaScript number is modelled as a real number, one of the two infinities, or NaN.
  A finite value is the real that the double denotes; where the code computes with
  numbers, the rounding of the exact result to a double is a parameter of the operation.
\<close>

datatype jsnum = NaN | NegInf | Num real | PosInf

fun isNaN :: "jsnum \<Rightarrow> bool" where
  "isNaN NaN = True"
| "isNaN _ = False"

text \<open>The relational operator \<open><\<close>; every comparison with NaN is false.\<close>

fun js_lt :: "jsnum \<Rightarrow> jsnum \<Rightarrow> bool" where
  "js_lt NaN _ = False"
| "js_lt _ NaN = False"
| "js_lt (Num x) (Num y) = (x < y)"
| "js_lt NegInf NegInf = False"
| "js_lt NegInf _ = True"
| "js_lt (Num x) PosInf = True"
| "js_lt _ _ = False"

definition js_gt :: "jsnum \<Rightarrow> jsnum \<Rightarrow> bool" where
  "js_gt a b = js_lt b a"

datatype error = TypeError | QueryError | FetchError | RangeError

text \<open>
  The value of \<open>fire.acquisition_date\<close>: a \<open>Date\<close> object (its time value in
  milliseconds, NaN for an invalid date) or, when the payload itself has a column of
  that name, the column's text.
\<close>

datatype acq = AcqDate jsnum | AcqText string

text \<open>
  Arithmetic on numbers, as far as the distance computation needs it. The result of an
  operation on two finite numbers is its exact result rounded to a double, or to an
  infinity when it overflows: that rounding is the parameter \<open>rnd\<close>. The cases with NaN
  or an infinity are those of IEEE 754.
\<close>

fun js_sub :: "(real \<Rightarrow> jsnum) \<Rightarrow> jsnum \<Rightarrow> jsnum \<Rightarrow> jsnum" where
  "js_sub rnd NaN _ = NaN"
| "js_sub rnd _ NaN = NaN"
| "js_sub rnd (Num x) (Num y) = rnd (x - y)"
| "js_sub rnd (Num x) PosInf = NegInf"
| "js_sub rnd (Num x) NegInf = PosInf"
| "js_sub rnd PosInf PosInf = NaN"
| "js_sub rnd PosInf _ = PosInf"
| "js_sub rnd NegInf NegInf = NaN"
| "js_sub rnd NegInf _ = NegInf"

fun js_add :: "(real \<Rightarrow> jsnum) \<Rightarrow> jsnum \<Rightarrow> jsnum \<Rightarrow> jsnum" where
  "js_add rnd NaN _ = NaN"
| "js_add rnd _ NaN = NaN"
| "js_add rnd (Num x) (Num y) = rnd (x + y)"
| "js_add rnd (Num x) PosInf = PosInf"
| "js_add rnd (Num x) NegInf = NegInf"
| "js_add rnd PosInf NegInf = NaN"
| "js_add rnd PosInf _ = PosInf"
| "js_add rnd NegInf PosInf = NaN"
| "js_add rnd NegInf _ = NegInf"

text \<open>The sign of an infinity multiplied by a number; zero times infinity is NaN.\<close>

definition inf_times :: "bool \<Rightarrow> real \<Rightarrow> jsnum" where
  "inf_times positive x =
     (if x = 0 then NaN else if (0 < x) = positive then PosInf else NegInf)"

fun js_mul :: "(real \<Rightarrow> jsnum) \<Rightarrow> jsnum \<Rightarrow> jsnum \<Rightarrow> jsnum" where
  "js_mul rnd NaN _ = NaN"
| "js_mul rnd _ NaN = NaN"
| "js_mul rnd (Num x) (Num y) = rnd (x * y)"
| "js_mul rnd (Num x) PosInf = inf_times True x"
| "js_mul rnd (Num x) NegInf = inf_times False x"
| "js_mul rnd PosInf (Num y) = inf_times True y"
| "js_mul rnd NegInf (Num y) = inf_times False y"
| "js_mul rnd PosInf PosInf = PosInf"
| "js_mul rnd NegInf NegInf = PosInf"
| "js_mul rnd PosInf NegInf = NegInf"
| "js_mul rnd NegInf PosInf = NegInf"

text \<open>
  \<open>Math.sqrt\<close>; its value on a finite number that is not negative is the parameter
  \<open>rt\<close>.
\<close>

fun js_sqrt :: "(real \<Rightarrow> jsnum) \<Rightarrow> jsnum \<Rightarrow> jsnum" where
  "js_sqrt rt (Num x) = (if x < 0 then NaN else rt x)"
| "js_sqrt rt PosInf = PosInf"
| "js_sqrt rt _ = NaN"

section \<open>JavaScript strings\<close>

text \<open>
  Text is a list of 8-bit characters. \<open>trim\<close> strips the ASCII white space and line
  terminators; other characters are left as they are.
\<close>

definition is_space :: "char \<Rightarrow> bool" where
  "is_space c = (c \<in> set [CHR '' '', CHR 0x09, CHR 0x0A, CHR 0x0B, CHR 0x0C, CHR 0x0D])"

definition trim :: "string \<Rightarrow> string" where
  "trim s = rev (dropWhile is_space (rev (dropWhile is_space s)))"

text \<open>\<open>s.split(c)\<close> for a one-character separator: never the empty list.\<close>

fun split :: "char \<Rightarrow> string \<Rightarrow> string list" where
  "split c [] = [[]]"
| "split c (x # xs) =
     (if x = c then [] # split c xs
      else (case split c xs of [] \<Rightarrow> [[x]] | w # ws \<Rightarrow> (x # w) # ws))"

text \<open>\<open>a || b\<close> on values that are a string, null or undefined (the last two are None).\<close>

definition js_or_opt :: "string option \<Rightarrow> string option \<Rightarrow> string option" where
  "js_or_opt a b = (case a of None \<Rightarrow> b | Some s \<Rightarrow> if s = [] then b else Some s)"

text \<open>\<open>a || d\<close> with a string default.\<close>

definition js_or_default :: "string option \<Rightarrow> string \<Rightarrow> string" where
  "js_or_default a d = (case a of None \<Rightarrow> d | Some s \<Rightarrow> if s = [] then d else s)"

section \<open>The canonical detection\<close>

record fire =
  latitude :: jsnum
  longitude :: jsnum
  acquisition_date :: acq
  brightness :: jsnum
  scan :: jsnum
  track :: jsnum
  satellite :: string
  instrument :: string
  confidence :: jsnum
  frp :: jsnum
  daynight :: string
  type :: string
  version :: string
  municipality :: string
  state :: string

section \<open>The relational store (initializeTables)\<close>

text \<open>
  The three tables of \<open>initializeTables\<close>. The \<open>confidence\<close> column of
  \<open>satellite_data\<close> is never written and the two bookkeeping columns
  \<open>created_at\<close> and \<open>updated_at\<close> take the clock's default; they are left out.
  Each \<open>SERIAL\<close> column draws from a sequence kept in the state.
\<close>

record location_row =
  l_id :: nat
  l_latitude :: jsnum
  l_longitude :: jsnum
  l_state :: string
  l_municipality :: string

record satellite_row =
  s_id :: nat
  s_source :: string
  s_satellite :: string
  s_instrument :: string

record incident_row =
  i_id :: nat
  i_location_id :: nat
  i_satellite_id :: nat
  i_acquisition_date :: int
  i_brightness :: jsnum
  i_scan :: jsnum
  i_track :: jsnum
  i_frp :: jsnum
  i_daynight :: string
  i_type :: string
  i_version :: string
  i_confidence :: jsnum

record db =
  fire_locations :: "location_row list"
  satellite_data :: "satellite_row list"
  fire_incidents :: "incident_row list"
  fire_locations_id_seq :: nat
  satellite_data_id_seq :: nat
  fire_incidents_id_seq :: nat

text \<open>
  What the store accepts for the typed columns (\<open>VARCHAR(n)\<close>, \<open>INTEGER\<close>,
  \<open>DECIMAL\<close>, \<open>TIMESTAMP\<close>) is a parameter: a value it rejects makes the query
  throw. \<open>timestamp_of\<close> is the conversion of a query parameter to a \<open>TIMESTAMP\<close>.
\<close>

record store =
  location_ok :: "jsnum \<Rightarrow> jsnum \<Rightarrow> string \<Rightarrow> string \<Rightarrow> bool"
  satellite_ok :: "string \<Rightarrow> string \<Rightarrow> string \<Rightarrow> bool"
  incident_ok :: "fire \<Rightarrow> bool"
  timestamp_of :: "acq \<Rightarrow> int option"

text \<open>JavaScript's \<open>a || b\<close> on strings: the empty string is falsy.\<close>

definition js_or :: "string \<Rightarrow> string \<Rightarrow> string" where
  "js_or a b = (if a = [] then b else a)"

text \<open>
  \<open>INSERT INTO satellite_data ... ON CONFLICT (source, satellite, instrument) DO NOTHING
  RETURNING id\<close>: the ids of the rows returned. On a conflict nothing is inserted and
  nothing is returned.
\<close>

definition insert_satellite_data ::
  "store \<Rightarrow> string \<Rightarrow> string \<Rightarrow> string \<Rightarrow> db \<Rightarrow> (error + nat list) \<times> db" where
  "insert_satellite_data K src sat ins d =
     (let n = Suc (satellite_data_id_seq d);
          d1 = d\<lparr>satellite_data_id_seq := n\<rparr>
      in if \<not> satellite_ok K src sat ins then (Inl QueryError, d1)
         else if \<exists>r \<in> set (satellite_data d).
                   s_source r = src \<and> s_satellite r = sat \<and> s_instrument r = ins
         then (Inr [], d1)
         else (Inr [n],
               d1\<lparr>satellite_data := satellite_data d @
                     [\<lparr>s_id = n, s_source = src, s_satellite = sat, s_instrument = ins\<rparr>]\<rparr>))"

text \<open>\<open>SELECT id FROM fire_locations WHERE latitude = $1 AND longitude = $2\<close>\<close>

definition select_location :: "db \<Rightarrow> jsnum \<Rightarrow> jsnum \<Rightarrow> nat list" where
  "select_location d lat lon =
     map l_id (filter (\<lambda>r. l_latitude r = lat \<and> l_longitude r = lon) (fire_locations d))"

text \<open>
  \<open>INSERT INTO fire_locations (latitude, longitude, state, municipality) ... RETURNING id\<close>,
  under \<open>UNIQUE(latitude, longitude)\<close>.
\<close>

definition insert_location ::
  "store \<Rightarrow> jsnum \<Rightarrow> jsnum \<Rightarrow> string \<Rightarrow> string \<Rightarrow> db \<Rightarrow> (error + nat) \<times> db" where
  "insert_location K lat lon st mun d =
     (let n = Suc (fire_locations_id_seq d);
          d1 = d\<lparr>fire_locations_id_seq := n\<rparr>
      in if \<not> location_ok K lat lon st mun \<or> select_location d lat lon \<noteq> []
         then (Inl QueryError, d1)
         else (Inr n,
               d1\<lparr>fire_locations := fire_locations d @
                     [\<lparr>l_id = n, l_latitude = lat, l_longitude = lon,
                       l_state = st, l_municipality = mun\<rparr>]\<rparr>))"

text \<open>
  \<open>SELECT id FROM fire_incidents WHERE location_id = $1 AND acquisition_date = $2
  AND satellite_id = $3\<close>; the query throws when \<open>$2\<close> is no timestamp.
\<close>

definition select_incident :: "store \<Rightarrow> db \<Rightarrow> nat \<Rightarrow> acq \<Rightarrow> nat \<Rightarrow> error + nat list" where
  "select_incident K d lid a sid =
     (case timestamp_of K a of
        None \<Rightarrow> Inl QueryError
      | Some t \<Rightarrow>
          Inr (map i_id (filter (\<lambda>r. i_location_id r = lid \<and> i_acquisition_date r = t
                                     \<and> i_satellite_id r = sid) (fire_incidents d))))"

text \<open>
  \<open>INSERT INTO fire_incidents (...) VALUES ($1, ..., $11)\<close>, under the two foreign keys
  and \<open>UNIQUE(location_id, satellite_id, acquisition_date)\<close>.
\<close>

definition insert_incident :: "store \<Rightarrow> nat \<Rightarrow> nat \<Rightarrow> fire \<Rightarrow> db \<Rightarrow> error option \<times> db" where
  "insert_incident K lid sid f d =
     (let n = Suc (fire_incidents_id_seq d);
          d1 = d\<lparr>fire_incidents_id_seq := n\<rparr>
      in case timestamp_of K (acquisition_date f) of
           None \<Rightarrow> (Some QueryError, d1)
         | Some t \<Rightarrow>
             if \<not> incident_ok K f
                \<or> lid \<notin> set (map l_id (fire_locations d))
                \<or> sid \<notin> set (map s_id (satellite_data d))
                \<or> (\<exists>r \<in> set (fire_incidents d).
                      i_location_id r = lid \<and> i_satellite_id r = sid \<and> i_acquisition_date r = t)
             then (Some QueryError, d1)
             else (None,
                   d1\<lparr>fire_incidents := fire_incidents d @
                         [\<lparr>i_id = n, i_location_id = lid, i_satellite_id = sid,
                           i_acquisition_date = t, i_brightness = brightness f,
                           i_scan = scan f, i_track = track f, i_frp = frp f,
                           i_daynight = daynight f, i_type = type f,
                           i_version = version f, i_confidence = confidence f\<rparr>]\<rparr>))"

section \<open>The Deduplicating Persister (saveFireData)\<close>

text \<open>
  The body of the \<open>try\<close> block run for one fire: the error it raised, if any, and the
  store as the queries left it (no transaction is open, so nothing is rolled back).
\<close>

definition saveFire_try :: "store \<Rightarrow> nat \<Rightarrow> fire \<Rightarrow> db \<Rightarrow> error option \<times> db" where
  "saveFire_try K satelliteId f d =
     (let locationCheck = select_location d (latitude f) (longitude f) in
      case (case locationCheck of
              [] \<Rightarrow> insert_location K (latitude f) (longitude f)
                      (js_or (state f) ''MA'') (js_or (municipality f) ''Unknown'') d
            | locationId # _ \<Rightarrow> (Inr locationId, d)) of
        (Inl e, d1) \<Rightarrow> (Some e, d1)
      | (Inr locationId, d1) \<Rightarrow>
          (case select_incident K d1 locationId (acquisition_date f) satelliteId of
             Inl e \<Rightarrow> (Some e, d1)
           | Inr [] \<Rightarrow> insert_incident K locationId satelliteId f d1
           | Inr (_ # _) \<Rightarrow> (None, d1)))"

text \<open>The \<open>catch\<close> of the loop body logs the error and goes on to the next fire.\<close>

definition saveFire :: "store \<Rightarrow> nat \<Rightarrow> fire \<Rightarrow> db \<Rightarrow> db" where
  "saveFire K satelliteId f d = snd (saveFire_try K satelliteId f d)"

fun saveFires :: "store \<Rightarrow> nat \<Rightarrow> fire list \<Rightarrow> db \<Rightarrow> db" where
  "saveFires K satelliteId [] d = d"
| "saveFires K satelliteId (f # fs) d = saveFires K satelliteId fs (saveFire K satelliteId f d)"

text \<open>
  \<open>saveFireData(fires, source)\<close> on a connected client: the value returned or the error
  rethrown by the outer \<open>catch\<close>, and the store afterwards. Reading
  \<open>satelliteData.rows[0].id\<close> is a TypeError when the insert returned no row.
\<close>

definition saveFireData :: "store \<Rightarrow> fire list \<Rightarrow> string \<Rightarrow> db \<Rightarrow> (error + nat) \<times> db" where
  "saveFireData K fires source d =
     (case insert_satellite_data K source source source d of
        (Inl e, d1) \<Rightarrow> (Inl e, d1)
      | (Inr [], d1) \<Rightarrow> (Inl TypeError, d1)
      | (Inr (satelliteId # _), d1) \<Rightarrow>
          (Inr (length fires), saveFires K satelliteId fires d1))"

section \<open>Auxiliary notions for the persister\<close>

text \<open>The store holds a \<open>satellite_data\<close> row for the triple \<open>(s, s, s)\<close>.\<close>

definition has_source :: "db \<Rightarrow> string \<Rightarrow> bool" where
  "has_source d s = (\<exists>r \<in> set (satellite_data d).
                   s_source r = s \<and> s_satellite r = s \<and> s_instrument r = s)"

text \<open>The store accepts the \<open>fire_locations\<close> row that \<open>saveFireData\<close> builds for a fire.\<close>

definition fire_location_ok :: "store \<Rightarrow> fire \<Rightarrow> bool" where
  "fire_location_ok K f =
     location_ok K (latitude f) (longitude f) (js_or (state f) ''MA'')
       (js_or (municipality f) ''Unknown'')"

text \<open>
  A fire is settled in a store when its coordinates have a location row and, for the first
  such row, either its incident is stored or the store would refuse it: running the loop
  body for a settled fire writes no row.
\<close>

definition settled :: "store \<Rightarrow> nat \<Rightarrow> fire \<Rightarrow> db \<Rightarrow> bool" where
  "settled K sid f d =
     (case select_location d (latitude f) (longitude f) of
        [] \<Rightarrow> False
      | lid # _ \<Rightarrow>
          (case timestamp_of K (acquisition_date f) of
             None \<Rightarrow> True
           | Some t \<Rightarrow>
               (\<exists>r \<in> set (fire_incidents d).
                   i_location_id r = lid \<and> i_acquisition_date r = t \<and> i_satellite_id r = sid)
               \<or> \<not> incident_ok K f
               \<or> sid \<notin> set (map s_id (satellite_data d))))"

text \<open>The rows of the three tables, without the sequences.\<close>

definition rows :: "db \<Rightarrow> location_row list \<times> satellite_row list \<times> incident_row list" where
  "rows d = (fire_locations d, satellite_data d, fire_incidents d)"

text \<open>
  A store for the worked examples: it refuses text longer than the declared \<open>VARCHAR\<close>
  width, a \<open>confidence\<close> that is no 32-bit integer, and a timestamp that is no valid
  \<open>Date\<close>.
\<close>

definition schema_store :: store where
  "schema_store =
     \<lparr>location_ok = (\<lambda>lat lon st mun. length st \<le> 100 \<and> length mun \<le> 100),
      satellite_ok = (\<lambda>src sat ins. length src \<le> 50 \<and> length sat \<le> 50 \<and> length ins \<le> 50),
      incident_ok = (\<lambda>f. length (daynight f) \<le> 1 \<and> length (type f) \<le> 50
                          \<and> length (version f) \<le> 50
                          \<and> (case confidence f of
                                Num c \<Rightarrow> c = of_int \<lfloor>c\<rfloor> \<and> - 2147483648 \<le> c \<and> c \<le> 2147483647
                              | _ \<Rightarrow> False)),
      timestamp_of = (\<lambda>a. case a of
                             AcqDate (Num t) \<Rightarrow> if t = of_int \<lfloor>t\<rfloor> then Some \<lfloor>t\<rfloor> else None
                           | _ \<Rightarrow> None)\<rparr>"

definition empty_db :: db where
  "empty_db = \<lparr>fire_locations = [], satellite_data = [], fire_incidents = [],
               fire_locations_id_seq = 0, satellite_data_id_seq = 0,
               fire_incidents_id_seq = 0\<rparr>"

definition fire_a :: fire where
  "fire_a = \<lparr>latitude = Num (-5), longitude = Num (-45),
             acquisition_date = AcqDate (Num 1705276800000),
             brightness = Num (661 / 2), scan = Num 0, track = Num 0,
             satellite = ''N'', instrument = ''VIIRS'', confidence = Num 0, frp = Num (5 / 2),
             daynight = ''D'', type = ''hotspot'', version = ''1.0'',
             municipality = ''Caxias'', state = ''MA''\<rparr>"

definition db_a :: db where
  "db_a = \<lparr>fire_locations = [\<lparr>l_id = 1, l_latitude = Num (-5), l_longitude = Num (-45),
                               l_state = ''MA'', l_municipality = ''Caxias''\<rparr>],
           satellite_data = [\<lparr>s_id = 1, s_source = ''ALL_SOURCES'',
                               s_satellite = ''ALL_SOURCES'', s_instrument = ''ALL_SOURCES''\<rparr>],
           fire_incidents = [\<lparr>i_id = 1, i_location_id = 1, i_satellite_id = 1,
                               i_acquisition_date = 1705276800000, i_brightness = Num (661 / 2),
                               i_scan = Num 0, i_track = Num 0, i_frp = Num (5 / 2),
                               i_daynight = ''D'', i_type = ''hotspot'', i_version = ''1.0'',
                               i_confidence = Num 0\<rparr>],
           fire_locations_id_seq = 1, satellite_data_id_seq = 1,
           fire_incidents_id_seq = 1\<rparr>"

definition fire_b :: fire where
  "fire_b = fire_a\<lparr>acquisition_date := AcqDate (Num 1705276801000)\<rparr>"

text \<open>The empty store after the row of the label \<open>ALL_SOURCES\<close> has been created.\<close>

definition db_s :: db where
  "db_s = empty_db\<lparr>satellite_data := [\<lparr>s_id = 1, s_source = ''ALL_SOURCES'',
                                           s_satellite = ''ALL_SOURCES'',
                                           s_instrument = ''ALL_SOURCES''\<rparr>],
                    satellite_data_id_seq := 1\<rparr>"

section \<open>Catalogs (nasaService.js)\<close>

record bounds =
  north :: real
  south :: real
  west :: real
  east :: real

definition MARANHAO_STATE_BOUNDS :: bounds where
  "MARANHAO_STATE_BOUNDS =
     \<lparr>north = - 2813 / 10000, south = - 104675 / 10000,
      west = - 474748 / 10000, east = - 411 / 10\<rparr>"

text \<open>The ids of \<open>SATELLITE_SOURCES\<close>; names and descriptions are only logged.\<close>

definition SATELLITE_SOURCES :: "string list" where
  "SATELLITE_SOURCES =
     [''VIIRS_SNPP_NRT'', ''VIIRS_NOAA20_NRT'', ''MODIS_NRT'',
      ''VIIRS_SNPP_SP'', ''VIIRS_NOAA20_SP'', ''MODIS_SP'']"

text \<open>
  Modelled from the spec: the entries of \<open>data/cities.js\<close>, which is not part of the
  sources at hand. A locality has a name and a reference coordinate, both finite numbers
  (the doubles that the table holds once loaded).
\<close>

record city =
  c_name :: string
  c_latitude :: real
  c_longitude :: real

section \<open>The runtime and the network\<close>

text \<open>
  A reply of the reverse-geocoding service: the request failed (\<open>fetch\<close> or
  \<open>response.json()\<close> threw, or the status was not ok), or a body arrived, with or
  without an \<open>address\<close> object.
\<close>

record address =
  a_city :: "string option"
  a_town :: "string option"
  a_village :: "string option"
  a_hamlet :: "string option"

datatype geo_reply = GeoFailed | GeoJson "address option"

text \<open>The request to the hotspot service, as the URL of \<open>getMaranhaoFireData\<close> encodes it.\<close>

record request =
  r_source :: string
  r_west :: real
  r_south :: real
  r_east :: real
  r_north :: real
  r_day_range :: nat
  r_begin :: int
  r_end :: int

text \<open>
  What \<open>await fetch(url)\<close> followed by \<open>response.text()\<close> comes to: a rejected promise,
  a response that is not ok, or the text of the body.
\<close>

datatype fetch_result = Rejected | HttpError | Body string

text \<open>
  The builtins and services the code calls are parameters: \<open>parseFloat\<close>, \<open>parseInt\<close>
  and \<open>new Date(s).getTime()\<close> on a string, the conversion of a string to a number by a
  relational operator, \<open>String.prototype.toLowerCase\<close>, the rounding of the exact
  result of \<open>+\<close>, \<open>-\<close> and \<open>*\<close> to a double (\<open>double_of\<close>), \<open>Math.sqrt\<close> on a
  finite number that is not negative (\<open>math_sqrt\<close>), and the two network services. A
  service answers a given request in the same way throughout a run.
\<close>

record env =
  parseFloat :: "string \<Rightarrow> jsnum"
  parseInt :: "string \<Rightarrow> jsnum"
  dateParse :: "string \<Rightarrow> jsnum"
  toNumber :: "string \<Rightarrow> jsnum"
  toLowerCase :: "string \<Rightarrow> string"
  double_of :: "real \<Rightarrow> jsnum"
  math_sqrt :: "real \<Rightarrow> jsnum"
  nominatim :: "jsnum \<Rightarrow> jsnum \<Rightarrow> geo_reply"
  fetch :: "request \<Rightarrow> fetch_result"

section \<open>The Locality Resolver (reverseGeocode)\<close>

record municipalityInfo =
  mi_state :: string
  mi_municipality :: string

definition outside_bounds :: "jsnum \<Rightarrow> jsnum \<Rightarrow> bool" where
  "outside_bounds lat lon =
     (js_lt lat (Num (south MARANHAO_STATE_BOUNDS))
      \<or> js_gt lat (Num (north MARANHAO_STATE_BOUNDS))
      \<or> js_lt lon (Num (west MARANHAO_STATE_BOUNDS))
      \<or> js_gt lon (Num (east MARANHAO_STATE_BOUNDS)))"

text \<open>
  The inner \<open>try\<close> block: the city of the index whose lower-cased name equals the
  lower-cased municipality of the reply, if the call succeeded and there is one. Every
  error is caught there and counts as no match.
\<close>

definition matchingCity :: "env \<Rightarrow> city list \<Rightarrow> jsnum \<Rightarrow> jsnum \<Rightarrow> city option" where
  "matchingCity E cities lat lon =
     (case nominatim E lat lon of
        GeoFailed \<Rightarrow> None
      | GeoJson None \<Rightarrow> None
      | GeoJson (Some a) \<Rightarrow>
          (case js_or_opt (a_city a) (js_or_opt (a_town a) (js_or_opt (a_village a) (a_hamlet a))) of
             None \<Rightarrow> None
           | Some name \<Rightarrow>
               find (\<lambda>city. toLowerCase E (c_name city) = toLowerCase E name) cities))"

text \<open>
  \<open>Math.sqrt(dx * dx + dy * dy)\<close> for one city, each operation rounding its result as
  the runtime does.
\<close>

definition distance :: "env \<Rightarrow> jsnum \<Rightarrow> jsnum \<Rightarrow> city \<Rightarrow> jsnum" where
  "distance E lat lon city =
     (let dx = js_sub (double_of E) lat (Num (c_latitude city));
          dy = js_sub (double_of E) lon (Num (c_longitude city))
      in js_sqrt (math_sqrt E)
           (js_add (double_of E) (js_mul (double_of E) dx dx) (js_mul (double_of E) dy dy)))"

text \<open>The scan for the closest city, on the pair of \<open>closestCity\<close> and \<open>minDistance\<close>.\<close>

fun closest_loop ::
  "env \<Rightarrow> jsnum \<Rightarrow> jsnum \<Rightarrow> city list \<Rightarrow> city option \<times> jsnum \<Rightarrow> city option \<times> jsnum"
  where
  "closest_loop E lat lon [] acc = acc"
| "closest_loop E lat lon (city # rest) (closest, minDistance) =
     closest_loop E lat lon rest
       (if js_lt (distance E lat lon city) minDistance
        then (Some city, distance E lat lon city)
        else (closest, minDistance))"

definition closestCity :: "env \<Rightarrow> city list \<Rightarrow> jsnum \<Rightarrow> jsnum \<Rightarrow> city option" where
  "closestCity E cities lat lon =
     fst (closest_loop E lat lon cities (None, PosInf))"

text \<open>
  \<open>reverseGeocode(latitude, longitude)\<close>; None is \<open>null\<close>. Nothing outside the inner
  \<open>try\<close> can throw, so the outer \<open>catch\<close>, which repeats the scan, is never entered.
\<close>

definition reverseGeocode ::
  "env \<Rightarrow> city list \<Rightarrow> jsnum \<Rightarrow> jsnum \<Rightarrow> municipalityInfo option" where
  "reverseGeocode E cities lat lon =
     (if outside_bounds lat lon then None
      else (case matchingCity E cities lat lon of
              Some city \<Rightarrow> Some \<lparr>mi_state = ''MA'', mi_municipality = c_name city\<rparr>
            | None \<Rightarrow>
                (case closestCity E cities lat lon of
                   Some city \<Rightarrow> Some \<lparr>mi_state = ''MA'', mi_municipality = c_name city\<rparr>
                 | None \<Rightarrow> None)))"

section \<open>The Normalizer (getMaranhaoFireData)\<close>

text \<open>
  \<open>parseFloat(v)\<close> and \<open>parseInt(v)\<close> on a field that may be null or undefined: both
  become the strings \<open>null\<close> and \<open>undefined\<close>, which parse to NaN.
\<close>

definition js_parseFloat :: "env \<Rightarrow> string option \<Rightarrow> jsnum" where
  "js_parseFloat E v = (case v of None \<Rightarrow> NaN | Some s \<Rightarrow> parseFloat E s)"

definition js_parseInt :: "env \<Rightarrow> string option \<Rightarrow> jsnum" where
  "js_parseInt E v = (case v of None \<Rightarrow> NaN | Some s \<Rightarrow> parseInt E s)"

definition safeParseFloat :: "env \<Rightarrow> string option \<Rightarrow> jsnum" where
  "safeParseFloat E v = (let parsed = js_parseFloat E v in if isNaN parsed then Num 0 else parsed)"

definition safeParseInt :: "env \<Rightarrow> string option \<Rightarrow> jsnum" where
  "safeParseInt E v = (let parsed = js_parseInt E v in if isNaN parsed then Num 0 else parsed)"

text \<open>
  The object built from one data row: \<open>fire[header.trim()] = values[index]?.trim() || null\<close>
  for each header in turn. A field that is null and a field that is absent are both None:
  every use of a field is a truthiness test or a parse, which treat them alike.
\<close>

type_synonym raw_fire = "string \<rightharpoonup> string"

definition set_field :: "string \<times> string \<Rightarrow> raw_fire \<Rightarrow> raw_fire" where
  "set_field hv m =
     m(trim (fst hv) := (if trim (snd hv) = [] then None else Some (trim (snd hv))))"

definition make_fire :: "string list \<Rightarrow> string list \<Rightarrow> raw_fire" where
  "make_fire headers values = fold set_field (zip headers values) Map.empty"

text \<open>
  \<open>fire.acquisition_date\<close> after the assignment from \<open>acq_date\<close>: the parsed date when
  \<open>acq_date\<close> is truthy, otherwise whatever a column named \<open>acquisition_date\<close> holds.
\<close>

definition acquisition_of :: "env \<Rightarrow> raw_fire \<Rightarrow> acq option" where
  "acquisition_of E m =
     (case m ''acq_date'' of
        Some s \<Rightarrow> Some (AcqDate (dateParse E s))
      | None \<Rightarrow> map_option AcqText (m ''acquisition_date''))"

text \<open>The number a relational operator compares when one side is a \<open>Date\<close>.\<close>

definition acq_number :: "env \<Rightarrow> acq \<Rightarrow> jsnum" where
  "acq_number E a = (case a of AcqDate t \<Rightarrow> t | AcqText s \<Rightarrow> toNumber E s)"

text \<open>
  The body of the row loop after the column count check, for the source with id
  \<open>source_id\<close>: the detection pushed, or None where the code says \<open>continue\<close>.
  \<open>startDate\<close> and \<open>endDate\<close> are the time values of the two dates.
\<close>

definition normalizeRow ::
  "env \<Rightarrow> city list \<Rightarrow> jsnum \<Rightarrow> jsnum \<Rightarrow> string \<Rightarrow> raw_fire \<Rightarrow> fire option" where
  "normalizeRow E cities startDate endDate source_id m =
     (case acquisition_of E m of
        None \<Rightarrow> None
      | Some a \<Rightarrow>
          if js_lt (acq_number E a) startDate \<or> js_gt (acq_number E a) endDate then None
          else
            (let lat = safeParseFloat E (m ''latitude'');
                 lon = safeParseFloat E (m ''longitude'')
             in if isNaN lat \<or> isNaN lon then None
                else if outside_bounds lat lon then None
                else
                  (case reverseGeocode E cities lat lon of
                     None \<Rightarrow> None
                   | Some info \<Rightarrow>
                       Some \<lparr>latitude = lat,
                             longitude = lon,
                             acquisition_date = a,
                             brightness =
                               safeParseFloat E (js_or_opt (m ''bright_ti4'') (m ''brightness'')),
                             scan = safeParseFloat E (m ''scan''),
                             track = safeParseFloat E (m ''track''),
                             satellite = js_or_default (m ''satellite'') source_id,
                             instrument =
                               js_or_default (m ''instrument'')
                                 (case split CHR ''_'' source_id of [] \<Rightarrow> [] | w # _ \<Rightarrow> w),
                             confidence = safeParseInt E (m ''confidence''),
                             frp = safeParseFloat E (m ''frp''),
                             daynight = js_or_default (m ''daynight'') ''D'',
                             type = ''hotspot'',
                             version = ''1.0'',
                             municipality = mi_municipality info,
                             state = mi_state info\<rparr>)))"

text \<open>The row loop: a line whose field count differs from the header's is skipped.\<close>

fun parseLines ::
  "env \<Rightarrow> city list \<Rightarrow> jsnum \<Rightarrow> jsnum \<Rightarrow> string \<Rightarrow> string list \<Rightarrow> string list \<Rightarrow> fire list" where
  "parseLines E cities startDate endDate source_id headers [] = []"
| "parseLines E cities startDate endDate source_id headers (line # rest) =
     (let values = split CHR '','' line in
      if length values \<noteq> length headers
      then parseLines E cities startDate endDate source_id headers rest
      else (case normalizeRow E cities startDate endDate source_id (make_fire headers values) of
              None \<Rightarrow> parseLines E cities startDate endDate source_id headers rest
            | Some f \<Rightarrow> f # parseLines E cities startDate endDate source_id headers rest))"

text \<open>The fires parsed from the text of one response.\<close>

definition parseCsv ::
  "env \<Rightarrow> city list \<Rightarrow> jsnum \<Rightarrow> jsnum \<Rightarrow> string \<Rightarrow> string \<Rightarrow> fire list" where
  "parseCsv E cities startDate endDate source_id text =
     (case split CHR 0x0A (trim text) of
        [] \<Rightarrow> []
      | header # lines \<Rightarrow>
          parseLines E cities startDate endDate source_id (split CHR '','' header) lines)"

text \<open>The reference coordinates of an index are latitudes and longitudes in degrees.\<close>

definition degrees_index :: "city list \<Rightarrow> bool" where
  "degrees_index cities =
     list_all (\<lambda>c. \<bar>c_latitude c\<bar> \<le> 90 \<and> \<bar>c_longitude c\<bar> \<le> 180) cities"

text \<open>
  What the resolver asks of the arithmetic of the runtime, and what binary64 arithmetic
  gives: an exact result of magnitude up to a million is rounded to a finite number, of no
  more than twice the magnitude and not negative when the exact result is not; and the
  square root of a number from zero to a million is a finite number.
\<close>

definition finite_arithmetic :: "env \<Rightarrow> bool" where
  "finite_arithmetic E =
     ((\<forall>v. \<bar>v\<bar> \<le> 1000000 \<longrightarrow>
           (\<exists>r. double_of E v = Num r \<and> \<bar>r\<bar> \<le> 2 * \<bar>v\<bar> \<and> (0 \<le> v \<longrightarrow> 0 \<le> r)))
      \<and> (\<forall>v. 0 \<le> v \<and> v \<le> 1000000 \<longrightarrow> (\<exists>r. math_sqrt E v = Num r)))"

text \<open>The columns read as measurements.\<close>

definition numeric_columns :: "string set" where
  "numeric_columns = {''bright_ti4'', ''brightness'', ''scan'', ''track'', ''confidence'', ''frp''}"

section \<open>The Fetcher (getMaranhaoFireData, fetchAllSatelliteData)\<close>

text \<open>
  \<open>date.toISOString().split('T')[0]\<close>: the UTC calendar day, counted in days since
  1970-01-01; \<open>toISOString\<close> throws a RangeError on an invalid date.
\<close>

definition toISODate :: "jsnum \<Rightarrow> error + int" where
  "toISODate d = (case d of Num t \<Rightarrow> Inr \<lfloor>t / 86400000\<rfloor> | _ \<Rightarrow> Inl RangeError)"

text \<open>
  The URL built for one source: the bounding box, the path segment 10, begin and end. The
  base URL and the key of the configuration are taken to give a well-formed URL.
\<close>

definition make_request :: "string \<Rightarrow> int \<Rightarrow> int \<Rightarrow> request" where
  "make_request source_id startParam endParam =
     \<lparr>r_source = source_id,
      r_west = west MARANHAO_STATE_BOUNDS, r_south = south MARANHAO_STATE_BOUNDS,
      r_east = east MARANHAO_STATE_BOUNDS, r_north = north MARANHAO_STATE_BOUNDS,
      r_day_range = 10, r_begin = startParam, r_end = endParam\<rparr>"

text \<open>
  The loop over the sources, threading \<open>allFires\<close> and the list of requests issued so
  far. A response that is not ok is skipped with \<open>continue\<close>; a rejected \<open>fetch\<close> leaves
  the loop through the \<open>catch\<close> of the function, which rethrows.
\<close>

fun fetch_sources ::
  "env \<Rightarrow> city list \<Rightarrow> jsnum \<Rightarrow> jsnum \<Rightarrow> int \<Rightarrow> int \<Rightarrow> string list \<Rightarrow>
   fire list \<times> request list \<Rightarrow> (error + fire list) \<times> request list" where
  "fetch_sources E cities startDate endDate startParam endParam [] (allFires, issued) =
     (Inr allFires, issued)"
| "fetch_sources E cities startDate endDate startParam endParam (source_id # rest)
     (allFires, issued) =
     (let url = make_request source_id startParam endParam in
      case fetch E url of
        Rejected \<Rightarrow> (Inl FetchError, issued @ [url])
      | HttpError \<Rightarrow>
          fetch_sources E cities startDate endDate startParam endParam rest
            (allFires, issued @ [url])
      | Body text \<Rightarrow>
          fetch_sources E cities startDate endDate startParam endParam rest
            (allFires @ parseCsv E cities startDate endDate source_id text, issued @ [url]))"

text \<open>
  \<open>getMaranhaoFireData(startDate, endDate)\<close>: the fires returned or the error rethrown,
  and the requests issued.
\<close>

definition getMaranhaoFireData ::
  "env \<Rightarrow> city list \<Rightarrow> jsnum \<Rightarrow> jsnum \<Rightarrow> (error + fire list) \<times> request list" where
  "getMaranhaoFireData E cities startDate endDate =
     (case toISODate startDate of
        Inl e \<Rightarrow> (Inl e, [])
      | Inr startParam \<Rightarrow>
          (case toISODate endDate of
             Inl e \<Rightarrow> (Inl e, [])
           | Inr endParam \<Rightarrow>
               fetch_sources E cities startDate endDate startParam endParam
                 SATELLITE_SOURCES ([], [])))"

text \<open>
  \<open>fetchAllSatelliteData(startDate, endDate)\<close>: one call of \<open>getMaranhaoFireData\<close> per
  catalog entry, an error of a call being caught and logged.
\<close>

fun fetch_all_loop ::
  "env \<Rightarrow> city list \<Rightarrow> jsnum \<Rightarrow> jsnum \<Rightarrow> string list \<Rightarrow>
   fire list \<times> request list \<Rightarrow> fire list \<times> request list" where
  "fetch_all_loop E cities startDate endDate [] acc = acc"
| "fetch_all_loop E cities startDate endDate (source_id # rest) (allFires, issued) =
     (case getMaranhaoFireData E cities startDate endDate of
        (Inl e, reqs) \<Rightarrow>
          fetch_all_loop E cities startDate endDate rest (allFires, issued @ reqs)
      | (Inr fires, reqs) \<Rightarrow>
          fetch_all_loop E cities startDate endDate rest (allFires @ fires, issued @ reqs))"

definition fetchAllSatelliteData ::
  "env \<Rightarrow> city list \<Rightarrow> jsnum \<Rightarrow> jsnum \<Rightarrow> fire list \<times> request list" where
  "fetchAllSatelliteData E cities startDate endDate =
     fetch_all_loop E cities startDate endDate SATELLITE_SOURCES ([], [])"

section \<open>The ingestion run (fetchAndSaveData)\<close>

text \<open>
  The script that fetches the last seven days (a day is taken as 86400000 ms) and saves
  them under the label \<open>ALL_SOURCES\<close>: the store after the run. An error of either step
  ends the process and leaves the store as it is at that point.
\<close>

definition fetchAndSaveData :: "env \<Rightarrow> store \<Rightarrow> city list \<Rightarrow> real \<Rightarrow> db \<Rightarrow> db" where
  "fetchAndSaveData E K cities now d =
     (let endDate = Num now;
          startDate = Num (now - 7 * 86400000)
      in case fst (getMaranhaoFireData E cities startDate endDate) of
           Inl e \<Rightarrow> d
         | Inr fires \<Rightarrow>
             if length fires = 0 then d
             else snd (saveFireData K fires ''ALL_SOURCES'' d))"

text \<open>The coordinates are numbers inside the bounding region, borders included.\<close>

definition in_region :: "jsnum \<Rightarrow> jsnum \<Rightarrow> bool" where
  "in_region lat lon =
     (case (lat, lon) of
        (Num x, Num y) \<Rightarrow>
          south MARANHAO_STATE_BOUNDS \<le> x \<and> x \<le> north MARANHAO_STATE_BOUNDS
          \<and> west MARANHAO_STATE_BOUNDS \<le> y \<and> y \<le> east MARANHAO_STATE_BOUNDS
      | _ \<Rightarrow> False)"

definition locations_in_region :: "db \<Rightarrow> bool" where
  "locations_in_region d =
     (\<forall>r \<in> set (fire_locations d). in_region (l_latitude r) (l_longitude r))"

section \<open>The Scheduler (scheduleWeatherUpdate)\<close>

text \<open>
  Times are milliseconds since the epoch. The local calendar is a parameter:
  \<open>setHours0\<close> is \<open>setHours(0, 0, 0, 0)\<close> and \<open>addDay\<close> is
  \<open>setDate(getDate() + 1)\<close> on a date.
\<close>

record clock =
  setHours0 :: "int \<Rightarrow> int"
  addDay :: "int \<Rightarrow> int"

definition millisecondsUntilMidnight :: "clock \<Rightarrow> int \<Rightarrow> int" where
  "millisecondsUntilMidnight C now =
     (let midnight = setHours0 C now;
          nextMidnight = (if now > midnight then addDay C midnight else midnight)
      in nextMidnight - now)"

text \<open>The pending timers, each by the time at which it is due.\<close>

record scheduler =
  timers :: "int list"

definition scheduleWeatherUpdate :: "clock \<Rightarrow> int \<Rightarrow> scheduler \<Rightarrow> scheduler" where
  "scheduleWeatherUpdate C now S =
     S\<lparr>timers := timers S @ [now + millisecondsUntilMidnight C now]\<rparr>"

text \<open>
  The callback of the timer: \<open>fetchAndSaveWeatherData\<close> has settled at the time
  \<open>finished\<close>, returning or throwing, and each branch of the \<open>try\<close> schedules again.
\<close>

datatype outcome = Succeeded | Raised

definition timer_callback :: "clock \<Rightarrow> outcome \<Rightarrow> int \<Rightarrow> scheduler \<Rightarrow> scheduler" where
  "timer_callback C result finished S =
     (case result of
        Succeeded \<Rightarrow> scheduleWeatherUpdate C finished S
      | Raised \<Rightarrow> scheduleWeatherUpdate C finished S)"

text \<open>One Running cycle: the timer due at \<open>due\<close> fires and its callback runs.\<close>

definition run_cycle :: "clock \<Rightarrow> int \<Rightarrow> outcome \<Rightarrow> int \<Rightarrow> scheduler \<Rightarrow> scheduler" where
  "run_cycle C due result finished S =
     timer_callback C result finished (S\<lparr>timers := remove1 due (timers S)\<rparr>)"

text \<open>A local calendar at a fixed offset from UTC, without daylight saving.\<close>

definition fixed_offset_clock :: "int \<Rightarrow> clock" where
  "fixed_offset_clock off =
     \<lparr>setHours0 = (\<lambda>t. ((t + off) div 86400000) * 86400000 - off),
      addDay = (\<lambda>t. t + 86400000)\<rparr>"

section \<open>A runtime for the worked examples\<close>

text \<open>
  \<open>parseFloat\<close> and \<open>parseInt\<close> on decimal text: leading white space, a sign, and the
  longest prefix that is a decimal literal (for \<open>parseInt\<close>: a run of digits, after
  \<open>0x\<close> of hexadecimal digits); NaN when there is none.
\<close>

definition is_digit :: "char \<Rightarrow> bool" where
  "is_digit c = (48 \<le> (of_char c :: nat) \<and> (of_char c :: nat) \<le> 57)"

definition digits_value :: "string \<Rightarrow> nat" where
  "digits_value ds = foldl (\<lambda>n c. 10 * n + ((of_char c :: nat) - 48)) 0 ds"

definition take_sign :: "string \<Rightarrow> bool \<times> string" where
  "take_sign s =
     (case s of
        [] \<Rightarrow> (False, [])
      | c # r \<Rightarrow> if c = CHR ''-'' then (True, r) else if c = CHR ''+'' then (False, r)
                 else (False, s))"

definition exponent_of :: "string \<Rightarrow> int" where
  "exponent_of s =
     (case s of
        [] \<Rightarrow> 0
      | c # r \<Rightarrow>
          if c = CHR ''e'' \<or> c = CHR ''E''
          then (let (negative, r1) = take_sign r; ds = takeWhile is_digit r1
                in if ds = [] then 0
                   else if negative then - int (digits_value ds) else int (digits_value ds))
          else 0)"

definition dec_parseFloat :: "string \<Rightarrow> jsnum" where
  "dec_parseFloat s =
     (let (negative, s1) = take_sign (dropWhile is_space s) in
      if take 8 s1 = ''Infinity'' then (if negative then NegInf else PosInf)
      else
        (let ip = takeWhile is_digit s1;
             r1 = dropWhile is_digit s1;
             (fp, r2) = (case r1 of
                           [] \<Rightarrow> ([], r1)
                         | c # r \<Rightarrow> if c = CHR ''.''
                                    then (takeWhile is_digit r, dropWhile is_digit r)
                                    else ([], r1))
         in if ip = [] \<and> fp = [] then NaN
            else
              (let mantissa = real (digits_value (ip @ fp)) / 10 ^ length fp;
                   ex = exponent_of r2;
                   magnitude = (if 0 \<le> ex then mantissa * 10 ^ nat ex
                                else mantissa / 10 ^ nat (- ex))
               in Num (if negative then - magnitude else magnitude))))"

definition hex_value :: "char \<Rightarrow> nat option" where
  "hex_value c =
     (let n = (of_char c :: nat) in
      if 48 \<le> n \<and> n \<le> 57 then Some (n - 48)
      else if 65 \<le> n \<and> n \<le> 70 then Some (n - 55)
      else if 97 \<le> n \<and> n \<le> 102 then Some (n - 87)
      else None)"

definition dec_parseInt :: "string \<Rightarrow> jsnum" where
  "dec_parseInt s =
     (let (negative, s1) = take_sign (dropWhile is_space s) in
      if take 2 s1 = ''0x'' \<or> take 2 s1 = ''0X''
      then (let hs = takeWhile (\<lambda>c. hex_value c \<noteq> None) (drop 2 s1);
                n = foldl (\<lambda>n c. 16 * n + (case hex_value c of None \<Rightarrow> 0 | Some v \<Rightarrow> v)) 0 hs
            in if hs = [] then NaN else Num (if negative then - real n else real n))
      else (let ds = takeWhile is_digit s1
            in if ds = [] then NaN
               else Num (if negative then - real (digits_value ds)
                         else real (digits_value ds))))"

text \<open>\<open>toLowerCase\<close> on ASCII text: the capitals A to Z are mapped.\<close>

definition lower_char :: "char \<Rightarrow> char" where
  "lower_char c =
     (let n = (of_char c :: nat) in if 65 \<le> n \<and> n \<le> 90 then char_of (n + 32) else c)"

definition ascii_toLowerCase :: "string \<Rightarrow> string" where
  "ascii_toLowerCase s = map lower_char s"

text \<open>
  The runtime of the examples. Its \<open>Date\<close> parser is given on the one date the payload
  holds (2024-01-15, at 1705276800000 ms); no example compares a text with a date, so
  \<open>toNumber\<close> is never called. Its arithmetic does not round: the coordinates of the
  examples are chosen so that every difference, product, sum and square root computed is a
  double, which binary64 arithmetic returns as it is. The geocoding service fails on every
  call, and the hotspot service answers every request with \<open>payload_a\<close>: a header, a
  well-formed row inside the region and a row with three fields.
\<close>

definition payload_a :: string where
  "payload_a =
     ''latitude,longitude,bright_ti4,acq_date,satellite,instrument,confidence,frp'' @ [CHR 0x0A] @
     ''-5.0,-45.0,330.5,2024-01-15,N,VIIRS,n,2.5'' @ [CHR 0x0A] @
     ''-5.1,-45.1,330.5'' @ [CHR 0x0A]"

definition env_a :: env where
  "env_a =
     \<lparr>parseFloat = dec_parseFloat,
      parseInt = dec_parseInt,
      dateParse = (\<lambda>s. if s = ''2024-01-15'' then Num 1705276800000 else NaN),
      toNumber = (\<lambda>s. NaN),
      toLowerCase = ascii_toLowerCase,
      double_of = Num,
      math_sqrt = (\<lambda>v. Num (sqrt v)),
      nominatim = (\<lambda>lat lon. GeoFailed),
      fetch = (\<lambda>r. Body payload_a)\<rparr>"

text \<open>
  An index of two cities. From the point (-5, -45) the first is at distance 3.75
  (dx = 2.25, dy = 3) and the second at distance 1.25 (dx = -0.75, dy = -1).
\<close>

definition cities_a :: "city list" where
  "cities_a =
     [\<lparr>c_name = ''Balsas'', c_latitude = - 29 / 4, c_longitude = - 48\<rparr>,
      \<lparr>c_name = ''Caxias'', c_latitude = - 17 / 4, c_longitude = - 44\<rparr>]"

text \<open>The run of the examples starts on 2024-01-18 at 12:00 UTC.\<close>

definition now_a :: real where
  "now_a = 1705579200000"

definition start_a :: real where
  "start_a = now_a - 7 * 86400000"

text \<open>A start thirty days before \<open>now_a\<close>, for a range wider than the lookback window.\<close>

definition wide_start_a :: real where
  "wide_start_a = now_a - 30 * 86400000"

text \<open>The same runtime with a hotspot service whose first source rejects the request.\<close>

definition env_rej :: env where
  "env_rej = env_a\<lparr>fetch := (\<lambda>r. if r_source r = ''VIIRS_SNPP_NRT'' then Rejected
                                   else Body payload_a)\<rparr>"

text \<open>The object built from the well-formed row of \<open>payload_a\<close>.\<close>

definition row_a :: raw_fire where
  "row_a =
     [''latitude'' \<mapsto> ''-5.0'', ''longitude'' \<mapsto> ''-45.0'', ''bright_ti4'' \<mapsto> ''330.5'',
      ''acq_date'' \<mapsto> ''2024-01-15'', ''satellite'' \<mapsto> ''N'', ''instrument'' \<mapsto> ''VIIRS'',
      ''confidence'' \<mapsto> ''n'', ''frp'' \<mapsto> ''2.5'']"

section \<open>Properties of the persister\<close>

lemma saveFire_try_satellite_data:
  "satellite_data (snd (saveFire_try K sid f d)) = satellite_data d"
  by (simp add: saveFire_try_def insert_location_def insert_incident_def select_incident_def Let_def
        split: list.splits sum.splits option.splits prod.splits if_splits)

lemma saveFire_satellite_data: "satellite_data (saveFire K sid f d) = satellite_data d"
  by (simp add: saveFire_def saveFire_try_satellite_data)

lemma saveFires_satellite_data: "satellite_data (saveFires K sid fs d) = satellite_data d"
  by (induction fs arbitrary: d) (simp_all add: saveFire_satellite_data)

lemma saveFire_incidents_prefix:
  "prefix (fire_incidents d) (fire_incidents (saveFire K sid f d))"
  by (auto simp add: saveFire_def saveFire_try_def insert_location_def insert_incident_def
        select_incident_def Let_def
        split: list.splits sum.splits option.splits prod.splits if_splits)

lemma saveFires_incidents_prefix:
  "prefix (fire_incidents d) (fire_incidents (saveFires K sid fs d))"
proof (induction fs arbitrary: d)
  case Nil
  show ?case by simp
next
  case (Cons f fs)
  have "prefix (fire_incidents d) (fire_incidents (saveFire K sid f d))"
    by (rule saveFire_incidents_prefix)
  also have "prefix \<dots> (fire_incidents (saveFires K sid fs (saveFire K sid f d)))"
    by (rule Cons.IH)
  finally show ?case by simp
qed

lemma insert_satellite_data_incidents:
  "fire_incidents (snd (insert_satellite_data K a b c d)) = fire_incidents d"
  by (simp add: insert_satellite_data_def Let_def)

lemma saveFireData_incidents_prefix:
  "prefix (fire_incidents d) (fire_incidents (snd (saveFireData K fs s d)))"
proof -
  obtain r d1 where ins: "insert_satellite_data K s s s d = (r, d1)"
    by (cases "insert_satellite_data K s s s d")
  have eq: "fire_incidents d1 = fire_incidents d"
    using insert_satellite_data_incidents [of K s s s d] ins by simp
  show ?thesis
  proof (cases r)
    case (Inl e)
    then show ?thesis using ins eq by (simp add: saveFireData_def)
  next
    case (Inr rows)
    show ?thesis
    proof (cases rows)
      case Nil
      then show ?thesis using ins eq Inr by (simp add: saveFireData_def)
    next
      case (Cons satelliteId rest)
      then show ?thesis
        using ins Inr saveFires_incidents_prefix [of d1 K satelliteId fs] eq
        by (simp add: saveFireData_def)
    qed
  qed
qed

lemma saveFireData_conflict:
  "has_source d s \<Longrightarrow> fst (saveFireData K fs s d) \<in> {Inl TypeError, Inl QueryError}
     \<and> fire_incidents (snd (saveFireData K fs s d)) = fire_incidents d
     \<and> fire_locations (snd (saveFireData K fs s d)) = fire_locations d
     \<and> satellite_data (snd (saveFireData K fs s d)) = satellite_data d"
  by (auto simp add: has_source_def saveFireData_def insert_satellite_data_def Let_def)

lemma saveFireData_rejected:
  "\<not> satellite_ok K s s s \<Longrightarrow> fst (saveFireData K fs s d) = Inl QueryError
     \<and> fire_incidents (snd (saveFireData K fs s d)) = fire_incidents d"
  by (auto simp add: saveFireData_def insert_satellite_data_def Let_def)

lemma saveFireData_creates:
  "satellite_ok K s s s \<Longrightarrow> has_source (snd (saveFireData K fs s d)) s"
  by (auto simp add: has_source_def saveFireData_def insert_satellite_data_def Let_def saveFires_satellite_data)

lemma saveFireData_twice:
  "fire_incidents (snd (saveFireData K fs s (snd (saveFireData K fs s d))))
     = fire_incidents (snd (saveFireData K fs s d))"
proof (cases "satellite_ok K s s s")
  case True
  then show ?thesis using saveFireData_creates saveFireData_conflict by blast
next
  case False
  then show ?thesis using saveFireData_rejected by blast
qed

lemma select_location_mem:
  "select_location d lat lon = lid # rest \<Longrightarrow> lid \<in> set (map l_id (fire_locations d))"
proof -
  assume a: "select_location d lat lon = lid # rest"
  have "set (select_location d lat lon) \<subseteq> set (map l_id (fire_locations d))"
    by (auto simp add: select_location_def)
  then show ?thesis using a by simp
qed

lemma select_incident_Nil:
  "select_incident K d lid a sid = Inr [] \<Longrightarrow> timestamp_of K a = Some t \<Longrightarrow>
   \<not> (\<exists>r \<in> set (fire_incidents d).
          i_location_id r = lid \<and> i_acquisition_date r = t \<and> i_satellite_id r = sid)"
  by (auto simp add: select_incident_def filter_empty_conv)

lemma select_incident_Cons:
  "select_incident K d lid a sid = Inr (x # xs) \<Longrightarrow>
   \<exists>t. timestamp_of K a = Some t \<and> (\<exists>r \<in> set (fire_incidents d).
          i_location_id r = lid \<and> i_acquisition_date r = t \<and> i_satellite_id r = sid)"
  by (cases "timestamp_of K a")
     (auto simp add: select_incident_def filter_eq_Cons_iff map_eq_Cons_conv)

lemma settled_rows:
  assumes "settled K sid f d"
  shows "rows (saveFire K sid f d) = rows d"
proof -
  from assms obtain lid rest where sl: "select_location d (latitude f) (longitude f) = lid # rest"
    by (auto simp add: settled_def split: list.splits)
  show ?thesis
  proof (cases "timestamp_of K (acquisition_date f)")
    case None
    then show ?thesis using sl
      by (simp add: saveFire_def saveFire_try_def select_incident_def)
  next
    case (Some t)
    show ?thesis
    proof (cases "select_incident K d lid (acquisition_date f) sid")
      case (Inl e)
      then show ?thesis using sl by (simp add: saveFire_def saveFire_try_def)
    next
      case (Inr ids)
      show ?thesis
      proof (cases ids)
        case Nil
        with Inr Some have "\<not> (\<exists>r \<in> set (fire_incidents d).
          i_location_id r = lid \<and> i_acquisition_date r = t \<and> i_satellite_id r = sid)"
          using select_incident_Nil by blast
        with assms sl Some have "\<not> incident_ok K f \<or> sid \<notin> set (map s_id (satellite_data d))"
          by (simp add: settled_def)
        then show ?thesis using sl Inr Nil Some
          by (auto simp add: saveFire_def saveFire_try_def insert_incident_def Let_def rows_def)
      next
        case (Cons x xs)
        then show ?thesis using sl Inr by (simp add: saveFire_def saveFire_try_def)
      qed
    qed
  qed
qed

lemma saveFire_appends:
  "\<exists>ls xs. fire_locations (saveFire K sid f d) = fire_locations d @ ls
      \<and> fire_incidents (saveFire K sid f d) = fire_incidents d @ xs
      \<and> satellite_data (saveFire K sid f d) = satellite_data d"
  by (auto simp add: saveFire_def saveFire_try_def insert_location_def insert_incident_def
        select_incident_def Let_def
        split: list.splits sum.splits option.splits prod.splits if_splits)

lemma settled_mono:
  assumes "settled K sid g d"
    and "fire_locations d' = fire_locations d @ ls"
    and "fire_incidents d' = fire_incidents d @ xs"
    and "satellite_data d' = satellite_data d"
  shows "settled K sid g d'"
  using assms
  by (auto simp add: settled_def select_location_def split: list.splits option.splits)

lemma settled_saveFire: "settled K sid g d \<Longrightarrow> settled K sid g (saveFire K sid f d)"
  using saveFire_appends [of K sid f d] settled_mono by blast

lemma settled_saveFires: "settled K sid g d \<Longrightarrow> settled K sid g (saveFires K sid fs d)"
  by (induction fs arbitrary: d) (simp_all add: settled_saveFire)

lemma insert_incident_settles:
  assumes sl: "select_location d (latitude f) (longitude f) = lid # rest"
    and si: "select_incident K d lid (acquisition_date f) sid = Inr []"
  shows "settled K sid f (snd (insert_incident K lid sid f d))"
proof (cases "timestamp_of K (acquisition_date f)")
  case None
  then show ?thesis using si by (simp add: select_incident_def)
next
  case (Some t)
  have mem: "lid \<in> set (map l_id (fire_locations d))"
    using sl by (rule select_location_mem)
  have sl': "select_location (snd (insert_incident K lid sid f d)) (latitude f) (longitude f)
               = lid # rest"
    using sl by (simp add: insert_incident_def select_location_def Let_def Some)
  show ?thesis using Some mem sl'
    by (auto simp add: settled_def insert_incident_def Let_def)
qed

lemma saveFire_settles:
  assumes ok: "fire_location_ok K f"
  shows "settled K sid f (saveFire K sid f d)"
proof -
  define d1 where "d1 = (case select_location d (latitude f) (longitude f) of
       [] \<Rightarrow> snd (insert_location K (latitude f) (longitude f)
                      (js_or (state f) ''MA'') (js_or (municipality f) ''Unknown'') d)
     | _ # _  \<Rightarrow> d)"
  have "\<exists>lid rest. select_location d1 (latitude f) (longitude f) = lid # rest
          \<and> saveFire K sid f d =
             (case select_incident K d1 lid (acquisition_date f) sid of
                Inl e \<Rightarrow> d1
              | Inr [] \<Rightarrow> snd (insert_incident K lid sid f d1)
              | Inr (_ # _) \<Rightarrow> d1)"
  proof (cases "select_location d (latitude f) (longitude f)")
    case Nil
    then show ?thesis using ok
      by (auto simp add: d1_def saveFire_def saveFire_try_def insert_location_def Let_def
            fire_location_ok_def select_location_def split: sum.splits list.splits)
  next
    case (Cons a as)
    then show ?thesis
      by (auto simp add: d1_def saveFire_def saveFire_try_def split: sum.splits list.splits)
  qed
  then obtain lid rest where sl: "select_location d1 (latitude f) (longitude f) = lid # rest"
    and eq: "saveFire K sid f d =
             (case select_incident K d1 lid (acquisition_date f) sid of
                Inl e \<Rightarrow> d1
              | Inr [] \<Rightarrow> snd (insert_incident K lid sid f d1)
              | Inr (_ # _) \<Rightarrow> d1)"
    by blast
  show ?thesis
  proof (cases "select_incident K d1 lid (acquisition_date f) sid")
    case (Inl e)
    then have "timestamp_of K (acquisition_date f) = None"
      by (simp add: select_incident_def split: option.splits)
    then show ?thesis using eq Inl sl by (simp add: settled_def)
  next
    case (Inr ids)
    show ?thesis
    proof (cases ids)
      case Nil
      then show ?thesis using eq Inr insert_incident_settles [OF sl] by simp
    next
      case (Cons x xs)
      with Inr obtain t where "timestamp_of K (acquisition_date f) = Some t"
        and "\<exists>r \<in> set (fire_incidents d1).
          i_location_id r = lid \<and> i_acquisition_date r = t \<and> i_satellite_id r = sid"
        using select_incident_Cons by blast
      then show ?thesis using eq Inr Cons sl by (simp add: settled_def)
    qed
  qed
qed

lemma settled_all_rows:
  "\<forall>f \<in> set fs. settled K sid f d \<Longrightarrow> rows (saveFires K sid fs d) = rows d"
proof (induction fs arbitrary: d)
  case Nil
  show ?case by simp
next
  case (Cons f fs)
  have "\<forall>g \<in> set fs. settled K sid g (saveFire K sid f d)"
    using Cons.prems by (simp add: settled_saveFire)
  then have "rows (saveFires K sid fs (saveFire K sid f d)) = rows (saveFire K sid f d)"
    by (rule Cons.IH)
  also have "\<dots> = rows d"
    using Cons.prems by (simp add: settled_rows)
  finally show ?case by simp
qed

lemma saveFires_settles_all:
  "\<forall>f \<in> set fs. fire_location_ok K f \<Longrightarrow> \<forall>f \<in> set fs. settled K sid f (saveFires K sid fs d)"
proof (induction fs arbitrary: d)
  case Nil
  show ?case by simp
next
  case (Cons f fs)
  have "settled K sid f (saveFire K sid f d)"
    using Cons.prems by (simp add: saveFire_settles)
  then have "settled K sid f (saveFires K sid fs (saveFire K sid f d))"
    by (rule settled_saveFires)
  moreover have "\<forall>g \<in> set fs. settled K sid g (saveFires K sid fs (saveFire K sid f d))"
    using Cons.prems Cons.IH by simp
  ultimately show ?case by simp
qed

lemma saveFires_twice:
  assumes "\<forall>f \<in> set fs. fire_location_ok K f"
  shows "rows (saveFires K sid fs (saveFires K sid fs d)) = rows (saveFires K sid fs d)"
  using assms saveFires_settles_all settled_all_rows by blast

lemma first_run: "saveFireData schema_store [fire_a] ''ALL_SOURCES'' empty_db = (Inr 1, db_a)"
  by (simp add: saveFireData_def insert_satellite_data_def saveFire_def saveFire_try_def
        select_location_def insert_location_def select_incident_def insert_incident_def
        schema_store_def empty_db_def fire_a_def db_a_def js_or_def Let_def)

lemma saveFire_key_stored:
  assumes "select_location d (latitude f) (longitude f) = lid # others"
    and "timestamp_of K (acquisition_date f) = Some t"
    and "\<exists>r \<in> set (fire_incidents d).
           i_location_id r = lid \<and> i_acquisition_date r = t \<and> i_satellite_id r = sid"
  shows "saveFire K sid f d = d"
proof -
  have "filter (\<lambda>r. i_location_id r = lid \<and> i_acquisition_date r = t \<and> i_satellite_id r = sid)
          (fire_incidents d) \<noteq> []"
    using assms(3) by (auto simp add: filter_empty_conv)
  then obtain x xs where "select_incident K d lid (acquisition_date f) sid = Inr (x # xs)"
    using assms(2) by (cases "filter (\<lambda>r. i_location_id r = lid \<and> i_acquisition_date r = t
          \<and> i_satellite_id r = sid) (fire_incidents d)") (auto simp add: select_incident_def)
  then show ?thesis
    using assms(1) by (simp add: saveFire_def saveFire_try_def)
qed

text \<open>
  Claim C1. Running \<open>saveFireData\<close> on a batch and then again on the same batch with
  the same source label leaves the \<open>fire_incidents\<close> rows as the first run left them
  (first conjunct); a run only appends rows and never rewrites a stored one (second
  conjunct). The same holds for the loop over the fires on its own, run twice with one
  satellite id, when the store accepts the location row of every fire (third conjunct). And
  the loop body leaves the store as it is for a fire whose location, timestamp and
  satellite id are the key of a stored incident (fourth conjunct).
\<close>

theorem saveFireData_idempotent:
  "fire_incidents (snd (saveFireData K D s (snd (saveFireData K D s d))))
     = fire_incidents (snd (saveFireData K D s d))
   \<and> prefix (fire_incidents d) (fire_incidents (snd (saveFireData K D s d)))
   \<and> ((\<forall>f \<in> set D. fire_location_ok K f) \<longrightarrow>
        fire_incidents (saveFires K sid D (saveFires K sid D d))
          = fire_incidents (saveFires K sid D d))
   \<and> (select_location d (latitude f) (longitude f) = lid # others
        \<and> timestamp_of K (acquisition_date f) = Some t
        \<and> (\<exists>r \<in> set (fire_incidents d).
              i_location_id r = lid \<and> i_acquisition_date r = t \<and> i_satellite_id r = sid)
        \<longrightarrow> saveFire K sid f d = d)"
proof -
  have "rows (saveFires K sid D (saveFires K sid D d)) = rows (saveFires K sid D d)"
    if "\<forall>f \<in> set D. fire_location_ok K f"
    using that by (rule saveFires_twice)
  then show ?thesis
    using saveFireData_twice [of K D s d] saveFireData_incidents_prefix [of d K D s]
      saveFire_key_stored [of d f lid others K t sid]
    by (simp add: rows_def)
qed

theorem saveFireData_idempotent_witness:
  "fire_location_ok schema_store fire_a
   \<and> select_location db_a (latitude fire_a) (longitude fire_a) = [1]
   \<and> timestamp_of schema_store (acquisition_date fire_a) = Some 1705276800000
   \<and> map i_acquisition_date (fire_incidents db_a) = [1705276800000]
   \<and> snd (saveFireData schema_store [fire_a] ''ALL_SOURCES'' empty_db) = db_a
   \<and> fire_incidents (snd (saveFireData schema_store [fire_a] ''ALL_SOURCES'' db_a))
       = fire_incidents db_a
   \<and> fire_incidents (saveFires schema_store 1 [fire_a] (saveFires schema_store 1 [fire_a] db_a))
       = fire_incidents (saveFires schema_store 1 [fire_a] db_a)
   \<and> saveFire schema_store 1 fire_a db_a = db_a
   \<and> length (fire_incidents db_a) = 1"
proof -
  have ok: "fire_location_ok schema_store fire_a"
    by (simp add: fire_location_ok_def schema_store_def fire_a_def js_or_def)
  have sl: "select_location db_a (latitude fire_a) (longitude fire_a) = [1]"
    by (simp add: select_location_def fire_a_def db_a_def)
  have ts: "timestamp_of schema_store (acquisition_date fire_a) = Some 1705276800000"
    by (simp add: schema_store_def fire_a_def)
  have inc: "map i_acquisition_date (fire_incidents db_a) = [1705276800000]"
    and len: "length (fire_incidents db_a) = 1"
    by (simp_all add: db_a_def)
  have ex: "\<exists>r \<in> set (fire_incidents db_a).
      i_location_id r = 1 \<and> i_acquisition_date r = 1705276800000 \<and> i_satellite_id r = 1"
    by (simp add: db_a_def)
  have fr: "snd (saveFireData schema_store [fire_a] ''ALL_SOURCES'' empty_db) = db_a"
    by (simp add: first_run)
  note t0 = saveFireData_idempotent [of schema_store "[fire_a]" "''ALL_SOURCES''" empty_db
      1 fire_a 1 "[]" 1705276800000]
  note t1 = saveFireData_idempotent [of schema_store "[fire_a]" "''ALL_SOURCES''" db_a
      1 fire_a 1 "[]" 1705276800000]
  have a: "fire_incidents (snd (saveFireData schema_store [fire_a] ''ALL_SOURCES'' db_a))
       = fire_incidents db_a"
    using t0 fr by simp
  have b: "fire_incidents (saveFires schema_store 1 [fire_a] (saveFires schema_store 1 [fire_a] db_a))
       = fire_incidents (saveFires schema_store 1 [fire_a] db_a)"
    using t1 ok by simp
  have c: "saveFire schema_store 1 fire_a db_a = db_a"
    using t1 sl ts ex by blast
  show ?thesis using ok sl ts inc fr a b c len by blast
qed

text \<open>
  Claim C2. The claim fails on the code: once the \<open>satellite_data\<close> row of the source
  label exists, \<open>INSERT ... ON CONFLICT DO NOTHING RETURNING id\<close> returns no row, reading
  \<open>rows[0].id\<close> raises a TypeError and the call is rejected before any fire is looked at.
  Here the first call creates the row and stores \<open>fire_a\<close>; the second call, with a
  detection not yet stored, raises and stores nothing.
\<close>

theorem saveFireData_existing_source_raises:
  "saveFireData schema_store [fire_a] ''ALL_SOURCES'' empty_db = (Inr 1, db_a)
   \<and> saveFireData schema_store [fire_b] ''ALL_SOURCES'' db_a
       = (Inl TypeError, db_a\<lparr>satellite_data_id_seq := 2\<rparr>)"
  by (simp add: saveFireData_def insert_satellite_data_def saveFire_def saveFire_try_def
        select_location_def insert_location_def select_incident_def insert_incident_def
        schema_store_def empty_db_def fire_a_def db_a_def js_or_def Let_def)

section \<open>Properties of the Normalizer\<close>

lemma safeParseFloat_not_NaN: "\<not> isNaN (safeParseFloat E v)"
  by (simp add: safeParseFloat_def Let_def)

lemma safeParseFloat_NaN: "js_parseFloat E v = NaN \<Longrightarrow> safeParseFloat E v = Num 0"
  by (simp add: safeParseFloat_def Let_def)

lemma safeParseInt_NaN: "js_parseInt E v = NaN \<Longrightarrow> safeParseInt E v = Num 0"
  by (simp add: safeParseInt_def Let_def)

lemma outside_bounds_zero_lat: "outside_bounds (Num 0) lon"
  by (simp add: outside_bounds_def js_gt_def MARANHAO_STATE_BOUNDS_def)

lemma outside_bounds_zero_lon: "outside_bounds lat (Num 0)"
  by (simp add: outside_bounds_def js_gt_def MARANHAO_STATE_BOUNDS_def)

lemma normalizeRow_unparseable:
  assumes "js_parseFloat E (m ''latitude'') = NaN \<or> js_parseFloat E (m ''longitude'') = NaN"
  shows "normalizeRow E cities startDate endDate source_id m = None"
proof -
  have "outside_bounds (safeParseFloat E (m ''latitude'')) (safeParseFloat E (m ''longitude''))"
    using assms safeParseFloat_NaN outside_bounds_zero_lat outside_bounds_zero_lon by metis
  then show ?thesis
    by (simp add: normalizeRow_def Let_def split: option.splits)
qed

lemma not_outside_in_region:
  "\<not> outside_bounds lat lon \<Longrightarrow> \<not> isNaN lat \<Longrightarrow> \<not> isNaN lon \<Longrightarrow> in_region lat lon"
  by (cases lat; cases lon)
     (simp_all add: outside_bounds_def in_region_def js_gt_def not_less)

lemma in_region_not_outside: "in_region lat lon \<Longrightarrow> \<not> outside_bounds lat lon"
  by (cases lat; cases lon)
     (auto simp add: outside_bounds_def in_region_def js_gt_def not_less)

lemma normalizeRow_Some:
  assumes "normalizeRow E cities startDate endDate source_id m = Some f"
  shows "latitude f = safeParseFloat E (m ''latitude'')"
    and "longitude f = safeParseFloat E (m ''longitude'')"
    and "brightness f = safeParseFloat E (js_or_opt (m ''bright_ti4'') (m ''brightness''))"
    and "scan f = safeParseFloat E (m ''scan'')"
    and "track f = safeParseFloat E (m ''track'')"
    and "confidence f = safeParseInt E (m ''confidence'')"
    and "frp f = safeParseFloat E (m ''frp'')"
    and "\<not> outside_bounds (latitude f) (longitude f)"
  using assms
  by (auto simp add: normalizeRow_def Let_def split: option.splits if_splits)

lemma normalizeRow_in_region:
  assumes "normalizeRow E cities startDate endDate source_id m = Some f"
  shows "in_region (latitude f) (longitude f)"
proof -
  have "\<not> isNaN (latitude f)" "\<not> isNaN (longitude f)"
    using normalizeRow_Some(1,2) [OF assms] safeParseFloat_not_NaN by simp_all
  then show ?thesis
    using normalizeRow_Some(8) [OF assms] not_outside_in_region by blast
qed

text \<open>Whether a row is emitted depends on its date and coordinate columns only.\<close>

lemma normalizeRow_emitted_iff:
  "normalizeRow E cities startDate endDate source_id m \<noteq> None \<longleftrightarrow>
     (\<exists>a. acquisition_of E m = Some a
        \<and> \<not> js_lt (acq_number E a) startDate \<and> \<not> js_gt (acq_number E a) endDate)
     \<and> reverseGeocode E cities (safeParseFloat E (m ''latitude''))
          (safeParseFloat E (m ''longitude'')) \<noteq> None"
proof -
  have rg: "reverseGeocode E cities lat lon \<noteq> None \<Longrightarrow> \<not> outside_bounds lat lon" for lat lon
    by (simp add: reverseGeocode_def split: if_splits)
  show ?thesis
    using rg [of "safeParseFloat E (m ''latitude'')" "safeParseFloat E (m ''longitude'')"]
    by (auto simp add: normalizeRow_def Let_def safeParseFloat_not_NaN split: option.splits)
qed

lemma normalizeRow_numeric_irrelevant:
  assumes "k \<in> numeric_columns"
  shows "normalizeRow E cities startDate endDate source_id (m(k := v)) \<noteq> None
     \<longleftrightarrow> normalizeRow E cities startDate endDate source_id m \<noteq> None"
proof -
  have "''acq_date'' \<noteq> k" "''acquisition_date'' \<noteq> k" "''latitude'' \<noteq> k"
    "''longitude'' \<noteq> k"
    using assms by (auto simp add: numeric_columns_def)
  then have "acquisition_of E (m(k := v)) = acquisition_of E m"
    "(m(k := v)) ''latitude'' = m ''latitude''" "(m(k := v)) ''longitude'' = m ''longitude''"
    by (simp_all add: acquisition_of_def split: option.splits)
  then show ?thesis unfolding normalizeRow_emitted_iff by simp
qed

lemma parseLines_skip:
  "length (split CHR '','' line) \<noteq> length headers \<Longrightarrow>
   parseLines E cities startDate endDate source_id headers (line # rest)
     = parseLines E cities startDate endDate source_id headers rest"
  by (simp add: Let_def)

lemma parseLines_append:
  "parseLines E cities startDate endDate source_id headers (xs @ ys)
     = parseLines E cities startDate endDate source_id headers xs
       @ parseLines E cities startDate endDate source_id headers ys"
  by (induction xs) (simp_all add: Let_def split: option.splits)

lemma parseLines_filter:
  "parseLines E cities startDate endDate source_id headers lines
     = parseLines E cities startDate endDate source_id headers
         (filter (\<lambda>line. length (split CHR '','' line) = length headers) lines)"
  by (induction lines) (simp_all add: Let_def split: option.splits)

lemma parseLines_in_region:
  "\<forall>f \<in> set (parseLines E cities startDate endDate source_id headers lines).
     in_region (latitude f) (longitude f)"
  by (induction lines) (auto simp add: Let_def normalizeRow_in_region split: option.splits)

lemma parseCsv_in_region:
  "\<forall>f \<in> set (parseCsv E cities startDate endDate source_id text).
     in_region (latitude f) (longitude f)"
proof (cases "split CHR 0x0A (trim text)")
  case Nil
  then show ?thesis by (simp add: parseCsv_def)
next
  case (Cons header lines)
  then show ?thesis
    using parseLines_in_region [of E cities startDate endDate source_id "split CHR '','' header" lines]
    by (simp add: parseCsv_def)
qed

section \<open>Properties of the Fetcher\<close>

lemma fetch_sources_in_region:
  assumes "\<forall>f \<in> set allFires. in_region (latitude f) (longitude f)"
    and "fst (fetch_sources E cities startDate endDate b e srcs (allFires, issued)) = Inr fires"
  shows "\<forall>f \<in> set fires. in_region (latitude f) (longitude f)"
  using assms
proof (induction srcs arbitrary: allFires issued)
  case Nil
  then show ?case by simp
next
  case (Cons s srcs)
  show ?case
  proof (cases "fetch E (make_request s b e)")
    case Rejected
    then show ?thesis using Cons.prems by (simp add: Let_def)
  next
    case HttpError
    then show ?thesis using Cons.prems Cons.IH by (simp add: Let_def)
  next
    case (Body body)
    have a: "\<forall>f \<in> set (allFires @ parseCsv E cities startDate endDate s body).
            in_region (latitude f) (longitude f)"
      using Cons.prems(1) parseCsv_in_region by auto
    have b: "fst (fetch_sources E cities startDate endDate b e srcs
                (allFires @ parseCsv E cities startDate endDate s body,
                 issued @ [make_request s b e])) = Inr fires"
      using Cons.prems(2) Body by (simp add: Let_def)
    show ?thesis using a b by (rule Cons.IH)
  qed
qed

lemma getMaranhaoFireData_in_region:
  assumes "fst (getMaranhaoFireData E cities startDate endDate) = Inr fires"
  shows "\<forall>f \<in> set fires. in_region (latitude f) (longitude f)"
proof -
  from assms obtain b e where
    "fst (fetch_sources E cities startDate endDate b e SATELLITE_SOURCES ([], [])) = Inr fires"
    by (auto simp add: getMaranhaoFireData_def split: sum.splits)
  then show ?thesis using fetch_sources_in_region [of "[]"] by simp
qed

lemma fetch_sources_requests:
  "\<forall>q \<in> set (snd (fetch_sources E cities sd ed b e srcs (allFires, issued))).
      q \<in> set issued \<or> (r_begin q = b \<and> r_end q = e \<and> r_day_range q = 10)"
proof (induction srcs arbitrary: allFires issued)
  case Nil
  show ?case by simp
next
  case (Cons s srcs)
  have new: "r_begin (make_request s b e) = b \<and> r_end (make_request s b e) = e
              \<and> r_day_range (make_request s b e) = 10"
    by (simp add: make_request_def)
  show ?case
  proof (cases "fetch E (make_request s b e)")
    case Rejected
    then show ?thesis using new by (auto simp add: Let_def)
  next
    case HttpError
    then show ?thesis
      using new Cons.IH [of allFires "issued @ [make_request s b e]"]
      by (auto simp add: Let_def)
  next
    case (Body body)
    then show ?thesis
      using new Cons.IH [of "allFires @ parseCsv E cities sd ed s body"
          "issued @ [make_request s b e]"]
      by (auto simp add: Let_def)
  qed
qed

lemma fetch_sources_error:
  "fst (fetch_sources E cities sd ed b e srcs (allFires, issued)) = Inl err \<Longrightarrow> err = FetchError"
proof (induction srcs arbitrary: allFires issued)
  case Nil
  then show ?case by simp
next
  case (Cons s srcs)
  then show ?case
    by (cases "fetch E (make_request s b e)") (auto simp add: Let_def)
qed

lemma fetch_sources_responsive:
  assumes "\<forall>q. fetch E q \<noteq> Rejected"
  shows "(\<exists>fires. fst (fetch_sources E cities sd ed b e srcs (allFires, issued)) = Inr fires)
     \<and> snd (fetch_sources E cities sd ed b e srcs (allFires, issued))
         = issued @ map (\<lambda>s. make_request s b e) srcs"
proof (induction srcs arbitrary: allFires issued)
  case Nil
  show ?case by simp
next
  case (Cons s srcs)
  show ?case
  proof (cases "fetch E (make_request s b e)")
    case Rejected
    then show ?thesis using assms by simp
  next
    case HttpError
    then show ?thesis
      using Cons.IH [of allFires "issued @ [make_request s b e]"] by (simp add: Let_def)
  next
    case (Body body)
    then show ?thesis
      using Cons.IH [of "allFires @ parseCsv E cities sd ed s body" "issued @ [make_request s b e]"]
      by (simp add: Let_def)
  qed
qed

section \<open>The region invariant of the store\<close>

lemma saveFire_locations:
  "fire_locations (saveFire K sid f d) = fire_locations d
   \<or> (\<exists>n st mun. fire_locations (saveFire K sid f d) = fire_locations d @
         [\<lparr>l_id = n, l_latitude = latitude f, l_longitude = longitude f,
           l_state = st, l_municipality = mun\<rparr>])"
  by (auto simp add: saveFire_def saveFire_try_def insert_location_def insert_incident_def
        select_incident_def Let_def
        split: list.splits sum.splits option.splits prod.splits if_splits)

lemma saveFire_in_region:
  assumes "locations_in_region d" and "in_region (latitude f) (longitude f)"
  shows "locations_in_region (saveFire K sid f d)"
  using assms saveFire_locations [of K sid f d]
  by (auto simp add: locations_in_region_def)

lemma saveFires_in_region:
  "locations_in_region d \<Longrightarrow> \<forall>f \<in> set fs. in_region (latitude f) (longitude f) \<Longrightarrow>
   locations_in_region (saveFires K sid fs d)"
  by (induction fs arbitrary: d) (simp_all add: saveFire_in_region)

lemma saveFireData_in_region:
  assumes "locations_in_region d" and "\<forall>f \<in> set fs. in_region (latitude f) (longitude f)"
  shows "locations_in_region (snd (saveFireData K fs s d))"
proof -
  obtain r d1 where ins: "insert_satellite_data K s s s d = (r, d1)"
    by (cases "insert_satellite_data K s s s d")
  have "fire_locations d1 = fire_locations d"
    using ins by (auto simp add: insert_satellite_data_def Let_def split: if_splits)
  then have d1: "locations_in_region d1"
    using assms(1) by (simp add: locations_in_region_def)
  show ?thesis
  proof (cases r)
    case (Inl e)
    then show ?thesis using ins d1 by (simp add: saveFireData_def)
  next
    case (Inr ids)
    show ?thesis
    proof (cases ids)
      case Nil
      then show ?thesis using ins d1 Inr by (simp add: saveFireData_def)
    next
      case (Cons satelliteId rest)
      then show ?thesis
        using ins Inr saveFires_in_region [OF d1 assms(2), of K satelliteId]
        by (simp add: saveFireData_def)
    qed
  qed
qed

lemma fetchAndSaveData_in_region:
  assumes "locations_in_region d"
  shows "locations_in_region (fetchAndSaveData E K cities now d)"
proof (cases "fst (getMaranhaoFireData E cities (Num (now - 7 * 86400000)) (Num now))")
  case (Inl e)
  then show ?thesis using assms by (simp add: fetchAndSaveData_def)
next
  case (Inr fires)
  then have "\<forall>f \<in> set fires. in_region (latitude f) (longitude f)"
    by (rule getMaranhaoFireData_in_region)
  then show ?thesis
    using assms Inr saveFireData_in_region [of d fires K "''ALL_SOURCES''"]
    by (simp add: fetchAndSaveData_def)
qed

section \<open>Properties of the Locality Resolver\<close>

lemma js_lt_irrefl: "\<not> js_lt a a"
  by (cases a) simp_all

lemma js_lt_below:
  "js_lt d m \<Longrightarrow> \<not> js_lt a m \<Longrightarrow> \<not> js_lt a d"
  by (cases a; cases d; cases m) simp_all

text \<open>
  The scan keeps the pair of a city and its computed distance (or none and Infinity), and
  no city scanned has a computed distance below the one kept.
\<close>

lemma closest_loop_min:
  assumes "case best of None \<Rightarrow> m = PosInf | Some a \<Rightarrow> m = distance E lat lon a"
  shows "\<exists>rb rm. closest_loop E lat lon cs (best, m) = (rb, rm)
           \<and> (case rb of None \<Rightarrow> rm = PosInf | Some r \<Rightarrow> rm = distance E lat lon r)
           \<and> (rb = best \<or> rb \<in> Some ` set cs)
           \<and> (\<forall>a. \<not> js_lt a m \<longrightarrow> \<not> js_lt a rm)
           \<and> (\<forall>c \<in> set cs. \<not> js_lt (distance E lat lon c) rm)"
  using assms
proof (induction cs arbitrary: best m)
  case Nil
  then show ?case by simp
next
  case (Cons c cs)
  show ?case
  proof (cases "js_lt (distance E lat lon c) m")
    case True
    have inv: "case Some c of None \<Rightarrow> distance E lat lon c = PosInf
                 | Some a \<Rightarrow> distance E lat lon c = distance E lat lon a"
      by simp
    from Cons.IH [OF inv] obtain rb rm where
      r: "closest_loop E lat lon cs (Some c, distance E lat lon c) = (rb, rm)"
        "case rb of None \<Rightarrow> rm = PosInf | Some r \<Rightarrow> rm = distance E lat lon r"
        "rb = Some c \<or> rb \<in> Some ` set cs"
        "\<forall>a. \<not> js_lt a (distance E lat lon c) \<longrightarrow> \<not> js_lt a rm"
        "\<forall>c' \<in> set cs. \<not> js_lt (distance E lat lon c') rm"
      by blast
    have below: "\<forall>a. \<not> js_lt a m \<longrightarrow> \<not> js_lt a rm"
      using r(4) True js_lt_below by blast
    have self: "\<not> js_lt (distance E lat lon c) rm"
      using r(4) js_lt_irrefl by blast
    show ?thesis
      using True r(1,2,3,5) below self by auto
  next
    case False
    from Cons.IH [OF Cons.prems] obtain rb rm where
      r: "closest_loop E lat lon cs (best, m) = (rb, rm)"
        "case rb of None \<Rightarrow> rm = PosInf | Some r \<Rightarrow> rm = distance E lat lon r"
        "rb = best \<or> rb \<in> Some ` set cs"
        "\<forall>a. \<not> js_lt a m \<longrightarrow> \<not> js_lt a rm"
        "\<forall>c' \<in> set cs. \<not> js_lt (distance E lat lon c') rm"
      by blast
    have self: "\<not> js_lt (distance E lat lon c) rm"
      using r(4) False by blast
    show ?thesis
      using False r(1,2,3,4,5) self by auto
  qed
qed

lemma closestCity_Some:
  assumes "closestCity E cities lat lon = Some r"
  shows "r \<in> set cities
     \<and> (\<forall>c \<in> set cities. \<not> js_lt (distance E lat lon c) (distance E lat lon r))"
proof -
  have inv: "case None of None \<Rightarrow> PosInf = PosInf | Some a \<Rightarrow> PosInf = distance E lat lon a"
    by simp
  from closest_loop_min [OF inv, of cities] obtain rb rm where
    r: "closest_loop E lat lon cities (None, PosInf) = (rb, rm)"
      "case rb of None \<Rightarrow> rm = PosInf | Some r \<Rightarrow> rm = distance E lat lon r"
      "rb = None \<or> rb \<in> Some ` set cities"
      "\<forall>c \<in> set cities. \<not> js_lt (distance E lat lon c) rm"
    by blast
  have "rb = Some r" using assms r(1) by (simp add: closestCity_def)
  then show ?thesis using r(2,3,4) by auto
qed

lemma closestCity_None:
  assumes "closestCity E cities lat lon = None"
  shows "\<forall>c \<in> set cities. \<not> js_lt (distance E lat lon c) PosInf"
proof -
  have inv: "case None of None \<Rightarrow> PosInf = PosInf | Some a \<Rightarrow> PosInf = distance E lat lon a"
    by simp
  from closest_loop_min [OF inv, of cities] obtain rb rm where
    r: "closest_loop E lat lon cities (None, PosInf) = (rb, rm)"
      "case rb of None \<Rightarrow> rm = PosInf | Some r \<Rightarrow> rm = distance E lat lon r"
      "\<forall>c \<in> set cities. \<not> js_lt (distance E lat lon c) rm"
    by blast
  have "rb = None" using assms r(1) by (simp add: closestCity_def)
  then show ?thesis using r(2,3) by simp
qed

text \<open>With finite arithmetic the distance from a point of the region to a city is finite.\<close>

lemma rounded_finite:
  assumes "finite_arithmetic E" and "\<bar>v\<bar> \<le> b" and "b \<le> 1000000"
  shows "\<exists>r. double_of E v = Num r \<and> \<bar>r\<bar> \<le> 2 * b \<and> (0 \<le> v \<longrightarrow> 0 \<le> r)"
proof -
  have "\<bar>v\<bar> \<le> 1000000" using assms(2,3) by linarith
  then obtain r where r: "double_of E v = Num r" "\<bar>r\<bar> \<le> 2 * \<bar>v\<bar>" "0 \<le> v \<longrightarrow> 0 \<le> r"
    using assms(1) unfolding finite_arithmetic_def by blast
  have "\<bar>r\<bar> \<le> 2 * b" using r(2) assms(2) by linarith
  then show ?thesis using r(1,3) by blast
qed

lemma square_bound:
  fixes a :: real
  assumes "\<bar>a\<bar> \<le> b"
  shows "0 \<le> a * a \<and> \<bar>a * a\<bar> \<le> b * b"
proof -
  have n: "0 \<le> a * a" by simp
  have "\<bar>a\<bar> * \<bar>a\<bar> \<le> b * b"
    using assms by (intro mult_mono) simp_all
  then have "a * a \<le> b * b" by (simp only: abs_mult_self_eq)
  then show ?thesis using n by simp
qed

lemma distance_finite:
  assumes fa: "finite_arithmetic E"
    and reg: "in_region (Num x) (Num y)"
    and deg: "\<bar>c_latitude c\<bar> \<le> 90" "\<bar>c_longitude c\<bar> \<le> 180"
  shows "\<exists>d. distance E (Num x) (Num y) c = Num d"
proof -
  have xb: "\<bar>x\<bar> \<le> 11" and yb: "\<bar>y\<bar> \<le> 48"
    using reg by (auto simp add: in_region_def MARANHAO_STATE_BOUNDS_def)
  have "\<bar>x - c_latitude c\<bar> \<le> 101" using xb deg(1) by linarith
  then obtain dx where dx: "double_of E (x - c_latitude c) = Num dx" "\<bar>dx\<bar> \<le> 2 * 101"
    using rounded_finite [OF fa, of "x - c_latitude c" 101] by auto
  have "\<bar>y - c_longitude c\<bar> \<le> 228" using yb deg(2) by linarith
  then obtain dy where dy: "double_of E (y - c_longitude c) = Num dy" "\<bar>dy\<bar> \<le> 2 * 228"
    using rounded_finite [OF fa, of "y - c_longitude c" 228] by auto
  have sx: "0 \<le> dx * dx" "\<bar>dx * dx\<bar> \<le> 40804"
    using square_bound [of dx 202] dx(2) by simp_all
  obtain px where px: "double_of E (dx * dx) = Num px" "\<bar>px\<bar> \<le> 2 * 40804" "0 \<le> px"
    using rounded_finite [OF fa sx(2)] sx(1) by auto
  have sy: "0 \<le> dy * dy" "\<bar>dy * dy\<bar> \<le> 207936"
    using square_bound [of dy 456] dy(2) by simp_all
  obtain py where py: "double_of E (dy * dy) = Num py" "\<bar>py\<bar> \<le> 2 * 207936" "0 \<le> py"
    using rounded_finite [OF fa sy(2)] sy(1) by auto
  have sum: "0 \<le> px + py" "\<bar>px + py\<bar> \<le> 497480"
    using px(2,3) py(2,3) by linarith+
  obtain s where s: "double_of E (px + py) = Num s" "\<bar>s\<bar> \<le> 2 * 497480" "0 \<le> s"
    using rounded_finite [OF fa sum(2)] sum(1) by auto
  have "s \<le> 1000000" using s(2) by linarith
  then obtain d where d: "math_sqrt E s = Num d"
    using fa s(3) unfolding finite_arithmetic_def by blast
  have "\<not> s < 0" using s(3) by simp
  then show ?thesis
    using dx(1) dy(1) px(1) py(1) s(1) d by (simp add: distance_def Let_def)
qed

lemma matchingCity_failed:
  "nominatim E lat lon = GeoFailed \<or> nominatim E lat lon = GeoJson None
     \<Longrightarrow> matchingCity E cities lat lon = None"
  by (auto simp add: matchingCity_def)

lemma reverseGeocode_fallback:
  assumes "\<not> outside_bounds lat lon" and "matchingCity E cities lat lon = None"
  shows "reverseGeocode E cities lat lon
           = map_option (\<lambda>r. \<lparr>mi_state = ''MA'', mi_municipality = c_name r\<rparr>)
               (closestCity E cities lat lon)"
  using assms by (simp add: reverseGeocode_def split: option.splits)

section \<open>The worked examples\<close>

lemma replicate_six: "replicate 6 x = [x, x, x, x, x, x]"
  by (simp add: numeral_eq_Suc)

lemma split_payload_a: "split CHR 0x0A (trim payload_a) =
  [''latitude,longitude,bright_ti4,acq_date,satellite,instrument,confidence,frp'',
   ''-5.0,-45.0,330.5,2024-01-15,N,VIIRS,n,2.5'', ''-5.1,-45.1,330.5'']"
  by (simp add: payload_a_def trim_def is_space_def)

lemma make_fire_a:
  "make_fire (split CHR '','' ''latitude,longitude,bright_ti4,acq_date,satellite,instrument,confidence,frp'')
     (split CHR '','' ''-5.0,-45.0,330.5,2024-01-15,N,VIIRS,n,2.5'')
   = row_a"
  by (simp add: make_fire_def set_field_def trim_def is_space_def row_a_def)

lemma sqrt_examples: "sqrt (25 / 16) = 5 / 4" "sqrt (225 / 16) = 15 / 4"
  by (rule real_sqrt_unique; simp add: power2_eq_square)+

lemma distance_a:
  assumes "double_of E = Num" "math_sqrt E = (\<lambda>v. Num (sqrt v))"
  shows "distance E (Num (-5)) (Num (-45))
           \<lparr>c_name = n, c_latitude = - (29 / 4), c_longitude = - 48\<rparr> = Num (15 / 4)"
    and "distance E (Num (-5)) (Num (-45))
           \<lparr>c_name = n, c_latitude = - (17 / 4), c_longitude = - 44\<rparr> = Num (5 / 4)"
  using assms by (simp_all add: distance_def Let_def sqrt_examples)

lemma closest_a:
  assumes "double_of E = Num" "math_sqrt E = (\<lambda>v. Num (sqrt v))"
  shows "closestCity E cities_a (Num (-5)) (Num (-45)) = Some (cities_a ! 1)"
  by (simp add: closestCity_def cities_a_def distance_a [OF assms])

lemma geocode_a:
  assumes "nominatim E = (\<lambda>lat lon. GeoFailed)"
    and "double_of E = Num" "math_sqrt E = (\<lambda>v. Num (sqrt v))"
  shows "reverseGeocode E cities_a (Num (-5)) (Num (-45))
           = Some \<lparr>mi_state = ''MA'', mi_municipality = ''Caxias''\<rparr>"
proof -
  have "matchingCity E cities_a (Num (-5)) (Num (-45)) = None"
    using assms(1) by (simp add: matchingCity_def)
  moreover have "\<not> outside_bounds (Num (-5)) (Num (-45))"
    by (simp add: outside_bounds_def js_gt_def MARANHAO_STATE_BOUNDS_def)
  moreover have "c_name (cities_a ! 1) = ''Caxias''" by (simp add: cities_a_def)
  ultimately show ?thesis
    using closest_a [OF assms(2,3)] by (simp add: reverseGeocode_def)
qed

lemma parse_examples:
  "dec_parseFloat ''-5.0'' = Num (-5)" "dec_parseFloat ''-45.0'' = Num (-45)"
  "dec_parseFloat ''330.5'' = Num (661 / 2)" "dec_parseFloat ''2.5'' = Num (5 / 2)"
  "dec_parseInt ''n'' = NaN"
  by (simp_all add: dec_parseFloat_def dec_parseInt_def take_sign_def is_space_def is_digit_def
        digits_value_def exponent_of_def)

text \<open>
  The well-formed row of \<open>payload_a\<close> is emitted as \<open>fire_a\<close> for every range that
  starts no later than its date and ends at \<open>now_a\<close>, whatever the source.
\<close>

lemma normalizeRow_a:
  assumes "parseFloat E = dec_parseFloat" "parseInt E = dec_parseInt"
    "dateParse E = dateParse env_a" "nominatim E = (\<lambda>lat lon. GeoFailed)"
    and "sd \<le> 1705276800000"
    and "double_of E = Num" "math_sqrt E = (\<lambda>v. Num (sqrt v))"
  shows "normalizeRow E cities_a (Num sd) (Num now_a) src row_a = Some fire_a"
  using assms(1-5) geocode_a [OF assms(4,6,7)]
  by (simp add: normalizeRow_def acquisition_of_def acq_number_def env_a_def now_a_def
        safeParseFloat_def safeParseInt_def js_parseFloat_def js_parseInt_def js_gt_def
        parse_examples row_a_def outside_bounds_def MARANHAO_STATE_BOUNDS_def js_or_opt_def
        js_or_default_def fire_a_def Let_def)

lemma parseCsv_a:
  assumes "parseFloat E = dec_parseFloat" "parseInt E = dec_parseInt"
    "dateParse E = dateParse env_a" "nominatim E = (\<lambda>lat lon. GeoFailed)"
    and "sd \<le> 1705276800000"
    and "double_of E = Num" "math_sqrt E = (\<lambda>v. Num (sqrt v))"
  shows "parseCsv E cities_a (Num sd) (Num now_a) src payload_a = [fire_a]"
proof -
  have n: "length (split CHR '','' ''-5.1,-45.1,330.5'') \<noteq>
    length (split CHR '','' ''latitude,longitude,bright_ti4,acq_date,satellite,instrument,confidence,frp'')"
    by simp
  have m: "length (split CHR '','' ''-5.0,-45.0,330.5,2024-01-15,N,VIIRS,n,2.5'') =
    length (split CHR '','' ''latitude,longitude,bright_ti4,acq_date,satellite,instrument,confidence,frp'')"
    by simp
  show ?thesis
    unfolding parseCsv_def split_payload_a
    using n m normalizeRow_a [OF assms, of src]
    by (simp only: list.case parseLines.simps Let_def make_fire_a if_True if_False
          option.case not_not refl) simp
qed

lemma start_a_le: "start_a \<le> 1705276800000" "wide_start_a \<le> 1705276800000"
  by (simp_all add: start_a_def wide_start_a_def now_a_def)

lemma normalizeRow_row_a:
  "normalizeRow env_a cities_a (Num start_a) (Num now_a) ''MODIS_NRT'' row_a = Some fire_a"
  by (rule normalizeRow_a) (simp_all add: env_a_def start_a_le)

lemma iso_a: "toISODate (Num start_a) = Inr 19733" "toISODate (Num now_a) = Inr 19740"
  "toISODate (Num wide_start_a) = Inr 19710"
  by (simp_all add: toISODate_def now_a_def start_a_def wide_start_a_def)

lemma run_a:
  "getMaranhaoFireData env_a cities_a (Num start_a) (Num now_a)
     = (Inr (replicate 6 fire_a), map (\<lambda>s. make_request s 19733 19740) SATELLITE_SOURCES)"
proof -
  have p: "parseCsv env_a cities_a (Num start_a) (Num now_a) src payload_a = [fire_a]"
    for src by (rule parseCsv_a) (simp_all add: env_a_def start_a_le)
  have f: "fetch env_a q = Body payload_a" for q by (simp add: env_a_def)
  show ?thesis
    by (simp add: getMaranhaoFireData_def iso_a SATELLITE_SOURCES_def Let_def p f
          replicate_six)
qed

lemma run_rej:
  "getMaranhaoFireData env_rej cities_a (Num start_a) (Num now_a)
     = (Inl FetchError, [make_request ''VIIRS_SNPP_NRT'' 19733 19740])"
proof -
  have f: "fetch env_rej (make_request ''VIIRS_SNPP_NRT'' b e) = Rejected" for b e
    by (simp add: env_rej_def make_request_def)
  show ?thesis
    by (simp add: getMaranhaoFireData_def iso_a SATELLITE_SOURCES_def Let_def f)
qed

lemma all_rej:
  "fetchAllSatelliteData env_rej cities_a (Num start_a) (Num now_a)
     = ([], replicate 6 (make_request ''VIIRS_SNPP_NRT'' 19733 19740))"
  by (simp add: fetchAllSatelliteData_def SATELLITE_SOURCES_def run_rej replicate_six)

lemma run_wide:
  "getMaranhaoFireData env_a cities_a (Num wide_start_a) (Num now_a)
     = (Inr (replicate 6 fire_a), map (\<lambda>s. make_request s 19710 19740) SATELLITE_SOURCES)"
proof -
  have p: "parseCsv env_a cities_a (Num wide_start_a) (Num now_a) src payload_a = [fire_a]"
    for src by (rule parseCsv_a) (simp_all add: env_a_def start_a_le)
  have f: "fetch env_a q = Body payload_a" for q by (simp add: env_a_def)
  show ?thesis
    by (simp add: getMaranhaoFireData_def iso_a SATELLITE_SOURCES_def Let_def p f
          replicate_six)
qed

lemma sat_first:
  "insert_satellite_data schema_store ''ALL_SOURCES'' ''ALL_SOURCES'' ''ALL_SOURCES'' empty_db
     = (Inr [1], db_s)"
  by (simp add: insert_satellite_data_def schema_store_def empty_db_def db_s_def Let_def)

lemma first_fire: "saveFire schema_store 1 fire_a db_s = db_a"
  by (simp add: saveFire_def saveFire_try_def select_location_def insert_location_def
        select_incident_def insert_incident_def schema_store_def empty_db_def db_s_def
        fire_a_def db_a_def js_or_def Let_def)

lemma next_fire: "saveFire schema_store 1 fire_a db_a = db_a"
  by (simp add: saveFire_def saveFire_try_def select_location_def select_incident_def
        schema_store_def fire_a_def db_a_def Let_def)

lemma save_six:
  "saveFireData schema_store (replicate 6 fire_a) ''ALL_SOURCES'' empty_db = (Inr 6, db_a)"
  unfolding saveFireData_def sat_first replicate_six
  by (simp only: prod.case sum.case list.case saveFires.simps first_fire next_fire) simp

lemma pipeline_a: "fetchAndSaveData env_a schema_store cities_a now_a empty_db = db_a"
proof -
  have start_eq: "now_a - 7 * 86400000 = start_a" by (simp add: start_a_def)
  show ?thesis
    unfolding fetchAndSaveData_def Let_def start_eq run_a
    by (simp add: save_six)
qed

section \<open>The claims on the resolver, the fetcher, the normalizer and the scheduler\<close>

text \<open>
  Claim C3. For a point inside the bounding region, when the reverse-geocoding call fails
  or its reply matches no city of the index, whatever \<open>reverseGeocode\<close> returns is a city
  of the index such that no city of the index has a smaller computed distance
  \<open>Math.sqrt(dx * dx + dy * dy)\<close>, in raw degrees (first conjunct). For a non-empty index
  of coordinates in degrees, on a runtime with finite arithmetic, the result is not null:
  it is a city whose computed distance is a number and the least of the numbers computed
  for the index (second conjunct).
\<close>

theorem reverseGeocode_fallback_nearest:
  assumes "in_region (Num x) (Num y)"
    and "nominatim E (Num x) (Num y) = GeoFailed \<or> matchingCity E cities (Num x) (Num y) = None"
  shows "(\<forall>info. reverseGeocode E cities (Num x) (Num y) = Some info \<longrightarrow>
            (\<exists>r \<in> set cities.
                info = \<lparr>mi_state = ''MA'', mi_municipality = c_name r\<rparr>
                \<and> (\<forall>c \<in> set cities.
                      \<not> js_lt (distance E (Num x) (Num y) c) (distance E (Num x) (Num y) r))))
       \<and> (cities \<noteq> [] \<and> degrees_index cities \<and> finite_arithmetic E \<longrightarrow>
            (\<exists>r \<in> set cities. \<exists>dr.
                reverseGeocode E cities (Num x) (Num y)
                  = Some \<lparr>mi_state = ''MA'', mi_municipality = c_name r\<rparr>
                \<and> distance E (Num x) (Num y) r = Num dr
                \<and> (\<forall>c \<in> set cities. \<exists>dc.
                      distance E (Num x) (Num y) c = Num dc \<and> dr \<le> dc)))"
proof -
  have nomatch: "matchingCity E cities (Num x) (Num y) = None"
    using assms(2) matchingCity_failed by blast
  have inside: "\<not> outside_bounds (Num x) (Num y)"
    using assms(1) by (rule in_region_not_outside)
  note rg = reverseGeocode_fallback [OF inside nomatch]
  have first: "\<exists>r \<in> set cities.
                info = \<lparr>mi_state = ''MA'', mi_municipality = c_name r\<rparr>
                \<and> (\<forall>c \<in> set cities.
                      \<not> js_lt (distance E (Num x) (Num y) c) (distance E (Num x) (Num y) r))"
    if "reverseGeocode E cities (Num x) (Num y) = Some info" for info
  proof -
    from that rg obtain r where r: "closestCity E cities (Num x) (Num y) = Some r"
      "info = \<lparr>mi_state = ''MA'', mi_municipality = c_name r\<rparr>"
      by (cases "closestCity E cities (Num x) (Num y)") auto
    show ?thesis using closestCity_Some [OF r(1)] r(2) by blast
  qed
  have second: "\<exists>r \<in> set cities. \<exists>dr.
                reverseGeocode E cities (Num x) (Num y)
                  = Some \<lparr>mi_state = ''MA'', mi_municipality = c_name r\<rparr>
                \<and> distance E (Num x) (Num y) r = Num dr
                \<and> (\<forall>c \<in> set cities. \<exists>dc.
                      distance E (Num x) (Num y) c = Num dc \<and> dr \<le> dc)"
    if ne: "cities \<noteq> []" and deg: "degrees_index cities" and fa: "finite_arithmetic E"
  proof -
    have fin: "\<exists>d. distance E (Num x) (Num y) c = Num d" if "c \<in> set cities" for c
    proof -
      have "\<bar>c_latitude c\<bar> \<le> 90" "\<bar>c_longitude c\<bar> \<le> 180"
        using deg that by (auto simp add: degrees_index_def list_all_iff)
      then show ?thesis using distance_finite [OF fa assms(1)] by blast
    qed
    obtain a where a: "a \<in> set cities" using ne by (cases cities) auto
    have "closestCity E cities (Num x) (Num y) \<noteq> None"
    proof
      assume "closestCity E cities (Num x) (Num y) = None"
      then have "\<not> js_lt (distance E (Num x) (Num y) a) PosInf"
        using closestCity_None a by blast
      then show False using fin [OF a] by auto
    qed
    then obtain r where r: "closestCity E cities (Num x) (Num y) = Some r" by blast
    note m = closestCity_Some [OF r]
    obtain dr where dr: "distance E (Num x) (Num y) r = Num dr" using fin m by blast
    have "\<exists>dc. distance E (Num x) (Num y) c = Num dc \<and> dr \<le> dc"
      if cin: "c \<in> set cities" for c
    proof -
      obtain dc where dc: "distance E (Num x) (Num y) c = Num dc" using fin [OF cin] by blast
      have "\<not> js_lt (Num dc) (Num dr)" using m cin dc dr by auto
      then show ?thesis using dc by simp
    qed
    then show ?thesis using m r dr rg by auto
  qed
  show ?thesis using first second by blast
qed

theorem reverseGeocode_fallback_nearest_witness:
  "in_region (Num (-5)) (Num (-45))
   \<and> nominatim env_a (Num (-5)) (Num (-45)) = GeoFailed
   \<and> cities_a \<noteq> [] \<and> degrees_index cities_a \<and> finite_arithmetic env_a
   \<and> reverseGeocode env_a cities_a (Num (-5)) (Num (-45))
       = Some \<lparr>mi_state = ''MA'', mi_municipality = ''Caxias''\<rparr>
   \<and> distance env_a (Num (-5)) (Num (-45)) (cities_a ! 0) = Num (15 / 4)
   \<and> distance env_a (Num (-5)) (Num (-45)) (cities_a ! 1) = Num (5 / 4)
   \<and> (\<exists>r \<in> set cities_a. \<exists>dr.
         reverseGeocode env_a cities_a (Num (-5)) (Num (-45))
           = Some \<lparr>mi_state = ''MA'', mi_municipality = c_name r\<rparr>
         \<and> distance env_a (Num (-5)) (Num (-45)) r = Num dr
         \<and> (\<forall>c \<in> set cities_a. \<exists>dc.
               distance env_a (Num (-5)) (Num (-45)) c = Num dc \<and> dr \<le> dc))"
proof -
  have a: "in_region (Num (-5)) (Num (-45))"
    by (simp add: in_region_def MARANHAO_STATE_BOUNDS_def)
  have b: "nominatim env_a (Num (-5)) (Num (-45)) = GeoFailed" by (simp add: env_a_def)
  have c: "cities_a \<noteq> []" by (simp add: cities_a_def)
  have d: "degrees_index cities_a" by (simp add: degrees_index_def cities_a_def)
  have e: "finite_arithmetic env_a" by (simp add: finite_arithmetic_def env_a_def)
  have f: "reverseGeocode env_a cities_a (Num (-5)) (Num (-45))
       = Some \<lparr>mi_state = ''MA'', mi_municipality = ''Caxias''\<rparr>"
    by (rule geocode_a) (simp_all add: env_a_def)
  have g: "distance env_a (Num (-5)) (Num (-45)) (cities_a ! 0) = Num (15 / 4)"
    and h: "distance env_a (Num (-5)) (Num (-45)) (cities_a ! 1) = Num (5 / 4)"
    by (simp_all add: cities_a_def distance_a env_a_def)
  have i: "\<exists>r \<in> set cities_a. \<exists>dr.
         reverseGeocode env_a cities_a (Num (-5)) (Num (-45))
           = Some \<lparr>mi_state = ''MA'', mi_municipality = c_name r\<rparr>
         \<and> distance env_a (Num (-5)) (Num (-45)) r = Num dr
         \<and> (\<forall>c \<in> set cities_a. \<exists>dc.
               distance env_a (Num (-5)) (Num (-45)) c = Num dc \<and> dr \<le> dc)"
    using reverseGeocode_fallback_nearest [of "-5" "-45" env_a cities_a] a b c d e by blast
  show ?thesis using a b c d e f g h i by blast
qed

text \<open>
  Claim C4. The claim fails on the code for a \<open>fetch\<close> that rejects. With the first
  source rejecting and every other source answering with a payload that holds a detection,
  \<open>getMaranhaoFireData\<close> rethrows after the one request and \<open>fetchAllSatelliteData\<close>
  repeats that one request six times and returns no fire: no remaining source is fetched.
\<close>

theorem rejected_fetch_aborts_remaining_sources:
  "getMaranhaoFireData env_rej cities_a (Num start_a) (Num now_a)
     = (Inl FetchError, [make_request ''VIIRS_SNPP_NRT'' 19733 19740])
   \<and> fetchAllSatelliteData env_rej cities_a (Num start_a) (Num now_a)
     = ([], replicate 6 (make_request ''VIIRS_SNPP_NRT'' 19733 19740))
   \<and> fetch env_rej (make_request ''MODIS_NRT'' 19733 19740) = Body payload_a
   \<and> parseCsv env_rej cities_a (Num start_a) (Num now_a) ''MODIS_NRT'' payload_a = [fire_a]"
proof -
  have "parseCsv env_rej cities_a (Num start_a) (Num now_a) ''MODIS_NRT'' payload_a = [fire_a]"
    by (rule parseCsv_a) (simp_all add: env_rej_def env_a_def start_a_le)
  then show ?thesis
    using run_rej all_rej by (simp add: env_rej_def make_request_def)
qed

text \<open>
  Claim C5, amended. \<open>getMaranhaoFireData\<close> does not check the width of the date range:
  every request it issues carries the calendar days of the given start and end dates
  unchanged, with the fixed path segment 10; the only error it can raise for valid dates is
  the one of a rejected \<open>fetch\<close>; and when no \<open>fetch\<close> rejects it returns fires after
  one such request per source.
\<close>

theorem getMaranhaoFireData_passes_range_unchanged:
  "(\<forall>q \<in> set (snd (getMaranhaoFireData E cities (Num s) (Num e))).
       r_begin q = \<lfloor>s / 86400000\<rfloor> \<and> r_end q = \<lfloor>e / 86400000\<rfloor> \<and> r_day_range q = 10)
   \<and> (\<forall>err. fst (getMaranhaoFireData E cities (Num s) (Num e)) = Inl err \<longrightarrow> err = FetchError)
   \<and> ((\<forall>q. fetch E q \<noteq> Rejected) \<longrightarrow>
        (\<exists>fires. fst (getMaranhaoFireData E cities (Num s) (Num e)) = Inr fires)
        \<and> snd (getMaranhaoFireData E cities (Num s) (Num e))
            = map (\<lambda>src. make_request src \<lfloor>s / 86400000\<rfloor> \<lfloor>e / 86400000\<rfloor>) SATELLITE_SOURCES)"
proof -
  have eq: "getMaranhaoFireData E cities (Num s) (Num e)
      = fetch_sources E cities (Num s) (Num e) \<lfloor>s / 86400000\<rfloor> \<lfloor>e / 86400000\<rfloor>
          SATELLITE_SOURCES ([], [])"
    by (simp add: getMaranhaoFireData_def toISODate_def)
  show ?thesis
    unfolding eq
    using fetch_sources_requests [of E cities "Num s" "Num e" "\<lfloor>s / 86400000\<rfloor>"
        "\<lfloor>e / 86400000\<rfloor>" SATELLITE_SOURCES "[]" "[]"]
      fetch_sources_error [of E cities "Num s" "Num e" "\<lfloor>s / 86400000\<rfloor>"
        "\<lfloor>e / 86400000\<rfloor>" SATELLITE_SOURCES "[]" "[]"]
      fetch_sources_responsive [of E cities "Num s" "Num e" "\<lfloor>s / 86400000\<rfloor>"
        "\<lfloor>e / 86400000\<rfloor>" SATELLITE_SOURCES "[]" "[]"]
    by simp
qed

theorem getMaranhaoFireData_passes_range_unchanged_witness:
  "fetch env_a (make_request ''MODIS_NRT'' 19710 19740) \<noteq> Rejected
   \<and> \<lfloor>wide_start_a / 86400000\<rfloor> = 19710 \<and> \<lfloor>now_a / 86400000\<rfloor> = 19740
   \<and> map r_source (snd (getMaranhaoFireData env_a cities_a (Num wide_start_a) (Num now_a)))
       = SATELLITE_SOURCES
   \<and> map r_begin (snd (getMaranhaoFireData env_a cities_a (Num wide_start_a) (Num now_a)))
       = replicate 6 19710
   \<and> map r_end (snd (getMaranhaoFireData env_a cities_a (Num wide_start_a) (Num now_a)))
       = replicate 6 19740
   \<and> fst (getMaranhaoFireData env_a cities_a (Num wide_start_a) (Num now_a))
       = Inr (replicate 6 fire_a)
   \<and> fst (getMaranhaoFireData env_rej cities_a (Num start_a) (Num now_a)) = Inl FetchError"
proof -
  have r: "\<forall>q. fetch env_a q \<noteq> Rejected" by (simp add: env_a_def)
  have g: "fst (getMaranhaoFireData env_rej cities_a (Num start_a) (Num now_a)) = Inl FetchError"
    using getMaranhaoFireData_passes_range_unchanged [of env_rej cities_a start_a now_a]
    by (simp add: run_rej)
  have r1: "fetch env_a (make_request ''MODIS_NRT'' 19710 19740) \<noteq> Rejected"
    using r by blast
  have d: "\<lfloor>wide_start_a / 86400000\<rfloor> = 19710" "\<lfloor>now_a / 86400000\<rfloor> = 19740"
    by (simp_all add: wide_start_a_def now_a_def)
  note t = getMaranhaoFireData_passes_range_unchanged [of env_a cities_a wide_start_a now_a]
  have reqs: "snd (getMaranhaoFireData env_a cities_a (Num wide_start_a) (Num now_a))
       = map (\<lambda>src. make_request src 19710 19740) SATELLITE_SOURCES"
    using t r d by simp
  have a: "map r_source (snd (getMaranhaoFireData env_a cities_a (Num wide_start_a) (Num now_a)))
       = SATELLITE_SOURCES"
    and b: "map r_begin (snd (getMaranhaoFireData env_a cities_a (Num wide_start_a) (Num now_a)))
       = replicate 6 19710"
    and c: "map r_end (snd (getMaranhaoFireData env_a cities_a (Num wide_start_a) (Num now_a)))
       = replicate 6 19740"
    by (simp_all add: reqs make_request_def SATELLITE_SOURCES_def replicate_six)
  have f: "fst (getMaranhaoFireData env_a cities_a (Num wide_start_a) (Num now_a))
       = Inr (replicate 6 fire_a)"
    by (simp add: run_wide)
  show ?thesis using r1 d a b c f g by blast
qed

text \<open>
  Claim C5, as stated, fails: for a range of thirty days \<open>getMaranhaoFireData\<close> returns
  fires, raises nothing, and the request to every source carries the thirty-day range as
  given.
\<close>

theorem over_wide_range_requested_counterexample:
  "fst (getMaranhaoFireData env_a cities_a (Num wide_start_a) (Num now_a))
     = Inr (replicate 6 fire_a)
   \<and> map r_source (snd (getMaranhaoFireData env_a cities_a (Num wide_start_a) (Num now_a)))
       = SATELLITE_SOURCES
   \<and> map r_begin (snd (getMaranhaoFireData env_a cities_a (Num wide_start_a) (Num now_a)))
       = replicate 6 19710
   \<and> map r_end (snd (getMaranhaoFireData env_a cities_a (Num wide_start_a) (Num now_a)))
       = replicate 6 19740
   \<and> now_a - wide_start_a = 30 * 86400000"
proof -
  have l: "now_a - wide_start_a = 30 * 86400000" by (simp add: wide_start_a_def)
  have a: "map r_source (snd (getMaranhaoFireData env_a cities_a (Num wide_start_a) (Num now_a)))
       = SATELLITE_SOURCES"
    and b: "map r_begin (snd (getMaranhaoFireData env_a cities_a (Num wide_start_a) (Num now_a)))
       = replicate 6 19710"
    and c: "map r_end (snd (getMaranhaoFireData env_a cities_a (Num wide_start_a) (Num now_a)))
       = replicate 6 19740"
    by (simp_all add: run_wide make_request_def SATELLITE_SOURCES_def replicate_six)
  have f: "fst (getMaranhaoFireData env_a cities_a (Num wide_start_a) (Num now_a))
       = Inr (replicate 6 fire_a)"
    by (simp add: run_wide)
  show ?thesis using l a b c f by blast
qed

text \<open>
  Claim C6. Every fire returned by \<open>getMaranhaoFireData\<close> has coordinates inside the
  bounding region, borders included; \<open>saveFireData\<close> on such fires, and so a whole run of
  \<open>fetchAndSaveData\<close>, keeps every \<open>fire_locations\<close> row inside the region.
\<close>

theorem pipeline_keeps_locations_in_region:
  "(locations_in_region d \<longrightarrow> locations_in_region (fetchAndSaveData E K cities now d))
   \<and> (fst (getMaranhaoFireData E cities startDate endDate) = Inr fires \<longrightarrow>
        (\<forall>f \<in> set fires. in_region (latitude f) (longitude f)))
   \<and> (locations_in_region d \<and> (\<forall>f \<in> set fires. in_region (latitude f) (longitude f)) \<longrightarrow>
        locations_in_region (snd (saveFireData K fires source d)))"
  using fetchAndSaveData_in_region getMaranhaoFireData_in_region saveFireData_in_region
  by blast

theorem pipeline_keeps_locations_in_region_witness:
  "locations_in_region empty_db
   \<and> fetchAndSaveData env_a schema_store cities_a now_a empty_db = db_a
   \<and> locations_in_region db_a
   \<and> length (fire_locations db_a) = 1
   \<and> fst (getMaranhaoFireData env_a cities_a (Num start_a) (Num now_a)) = Inr (replicate 6 fire_a)
   \<and> in_region (latitude fire_a) (longitude fire_a)
   \<and> locations_in_region (snd (saveFireData schema_store (replicate 6 fire_a) ''ALL_SOURCES'' empty_db))"
proof -
  have e: "locations_in_region empty_db" by (simp add: locations_in_region_def empty_db_def)
  have r: "fst (getMaranhaoFireData env_a cities_a (Num start_a) (Num now_a))
             = Inr (replicate 6 fire_a)"
    by (simp add: run_a)
  have l: "length (fire_locations db_a) = 1" by (simp add: db_a_def)
  note t = pipeline_keeps_locations_in_region [of empty_db env_a schema_store cities_a now_a
        "Num start_a" "Num now_a" "replicate 6 fire_a" "''ALL_SOURCES''"]
  have a: "locations_in_region db_a" using t e pipeline_a by simp
  have b: "in_region (latitude fire_a) (longitude fire_a)" using t r by (simp add: replicate_six)
  have c: "locations_in_region
             (snd (saveFireData schema_store (replicate 6 fire_a) ''ALL_SOURCES'' empty_db))"
    using a by (simp add: save_six)
  show ?thesis using e pipeline_a a l r b c by blast
qed

text \<open>
  Claim C7. The row loop yields what it yields on the lines whose field count equals the
  header's: a line with another field count is skipped wherever it stands.
\<close>

theorem mismatched_rows_skipped:
  "parseLines E cities startDate endDate source_id headers lines
     = parseLines E cities startDate endDate source_id headers
         (filter (\<lambda>line. length (split CHR '','' line) = length headers) lines)
   \<and> (length (split CHR '','' line) \<noteq> length headers \<longrightarrow>
        parseLines E cities startDate endDate source_id headers (before @ line # rest)
          = parseLines E cities startDate endDate source_id headers (before @ rest))"
  using parseLines_filter [of E cities startDate endDate source_id headers lines]
  by (simp add: parseLines_append Let_def)

text \<open>
  The payload with one well-formed row inside the region and one row of three fields yields
  exactly one detection.
\<close>

theorem mismatched_rows_skipped_witness:
  "length (split CHR '','' ''-5.1,-45.1,330.5'') = 3
   \<and> length (split CHR '',''
        ''latitude,longitude,bright_ti4,acq_date,satellite,instrument,confidence,frp'') = 8
   \<and> split CHR 0x0A (trim payload_a) =
        [''latitude,longitude,bright_ti4,acq_date,satellite,instrument,confidence,frp'',
         ''-5.0,-45.0,330.5,2024-01-15,N,VIIRS,n,2.5'', ''-5.1,-45.1,330.5'']
   \<and> parseLines env_a cities_a (Num start_a) (Num now_a) ''MODIS_NRT''
        (split CHR '',''
          ''latitude,longitude,bright_ti4,acq_date,satellite,instrument,confidence,frp'')
        ([''-5.0,-45.0,330.5,2024-01-15,N,VIIRS,n,2.5''] @ ''-5.1,-45.1,330.5'' # [])
      = parseLines env_a cities_a (Num start_a) (Num now_a) ''MODIS_NRT''
        (split CHR '',''
          ''latitude,longitude,bright_ti4,acq_date,satellite,instrument,confidence,frp'')
        ([''-5.0,-45.0,330.5,2024-01-15,N,VIIRS,n,2.5''] @ [])
   \<and> parseCsv env_a cities_a (Num start_a) (Num now_a) ''MODIS_NRT'' payload_a = [fire_a]
   \<and> length (parseCsv env_a cities_a (Num start_a) (Num now_a) ''MODIS_NRT'' payload_a) = 1"
proof -
  have n: "length (split CHR '','' ''-5.1,-45.1,330.5'') = 3" by simp
  have h: "length (split CHR '',''
        ''latitude,longitude,bright_ti4,acq_date,satellite,instrument,confidence,frp'') = 8"
    by simp
  have p: "parseCsv env_a cities_a (Num start_a) (Num now_a) ''MODIS_NRT'' payload_a = [fire_a]"
    by (rule parseCsv_a) (simp_all add: env_a_def start_a_le)
  have ne: "length (split CHR '','' ''-5.1,-45.1,330.5'') \<noteq> length (split CHR '',''
        ''latitude,longitude,bright_ti4,acq_date,satellite,instrument,confidence,frp'')"
    using n h by simp
  have s: "parseLines env_a cities_a (Num start_a) (Num now_a) ''MODIS_NRT''
        (split CHR '',''
          ''latitude,longitude,bright_ti4,acq_date,satellite,instrument,confidence,frp'')
        ([''-5.0,-45.0,330.5,2024-01-15,N,VIIRS,n,2.5''] @ ''-5.1,-45.1,330.5'' # [])
      = parseLines env_a cities_a (Num start_a) (Num now_a) ''MODIS_NRT''
        (split CHR '',''
          ''latitude,longitude,bright_ti4,acq_date,satellite,instrument,confidence,frp'')
        ([''-5.0,-45.0,330.5,2024-01-15,N,VIIRS,n,2.5''] @ [])"
    using ne mismatched_rows_skipped [of env_a cities_a "Num start_a" "Num now_a" "''MODIS_NRT''"
        "split CHR '','' ''latitude,longitude,bright_ti4,acq_date,satellite,instrument,confidence,frp''"
        "[]" "''-5.1,-45.1,330.5''" "[''-5.0,-45.0,330.5,2024-01-15,N,VIIRS,n,2.5'']" "[]"]
    by blast
  have l: "length (parseCsv env_a cities_a (Num start_a) (Num now_a) ''MODIS_NRT'' payload_a) = 1"
    using p by simp
  show ?thesis
    using n h p s l split_payload_a by blast
qed

text \<open>
  Claim C8. In the detection emitted for a row, each of brightness, scan, track, confidence
  and frp is zero when its text does not parse; and whatever text the measurement columns
  hold, the row is emitted all the same.
\<close>

theorem unparseable_numeric_fields_default_to_zero:
  assumes "normalizeRow E cities startDate endDate source_id m = Some f"
  shows "(js_parseFloat E (js_or_opt (m ''bright_ti4'') (m ''brightness'')) = NaN
            \<longrightarrow> brightness f = Num 0)
       \<and> (js_parseFloat E (m ''scan'') = NaN \<longrightarrow> scan f = Num 0)
       \<and> (js_parseFloat E (m ''track'') = NaN \<longrightarrow> track f = Num 0)
       \<and> (js_parseInt E (m ''confidence'') = NaN \<longrightarrow> confidence f = Num 0)
       \<and> (js_parseFloat E (m ''frp'') = NaN \<longrightarrow> frp f = Num 0)
       \<and> (\<forall>k \<in> numeric_columns. \<forall>v.
             normalizeRow E cities startDate endDate source_id (m(k := v)) \<noteq> None)"
proof -
  have "\<forall>k \<in> numeric_columns. \<forall>v.
          normalizeRow E cities startDate endDate source_id (m(k := v)) \<noteq> None"
    using assms normalizeRow_numeric_irrelevant [of _ E cities startDate endDate source_id m]
    by simp
  then show ?thesis
    using normalizeRow_Some(3-7) [OF assms] safeParseFloat_NaN safeParseInt_NaN
    by simp
qed

theorem unparseable_numeric_fields_default_to_zero_witness:
  "normalizeRow env_a cities_a (Num start_a) (Num now_a) ''MODIS_NRT'' row_a = Some fire_a
   \<and> js_parseInt env_a (row_a ''confidence'') = NaN \<and> confidence fire_a = Num 0
   \<and> js_parseFloat env_a (row_a ''scan'') = NaN \<and> scan fire_a = Num 0
   \<and> ''frp'' \<in> numeric_columns
   \<and> normalizeRow env_a cities_a (Num start_a) (Num now_a) ''MODIS_NRT''
         (row_a(''frp'' := Some ''abc'')) \<noteq> None"
proof -
  note t = unparseable_numeric_fields_default_to_zero [OF normalizeRow_row_a]
  have a: "js_parseInt env_a (row_a ''confidence'') = NaN"
    by (simp add: js_parseInt_def row_a_def env_a_def parse_examples)
  have b: "js_parseFloat env_a (row_a ''scan'') = NaN"
    by (simp add: js_parseFloat_def row_a_def)
  have c: "confidence fire_a = Num 0" using t a by blast
  have d: "scan fire_a = Num 0" using t b by blast
  have e: "''frp'' \<in> numeric_columns" by (simp add: numeric_columns_def)
  have g: "normalizeRow env_a cities_a (Num start_a) (Num now_a) ''MODIS_NRT''
         (row_a(''frp'' := Some ''abc'')) \<noteq> None"
    using t e by blast
  show ?thesis using normalizeRow_row_a a b c d e g by blast
qed

text \<open>
  Claim C9. After a cycle, whether the update returned or threw, the fired timer is replaced
  by a new one, due after the delay computed at the time the update settled; so the set of
  timers is never empty. For a calendar at a fixed offset that delay leads to the next local
  midnight: it is at least zero, less than a day, and ends on a local midnight.
\<close>

theorem timer_rearmed_after_cycle:
  "timers (run_cycle C due result finished S)
     = remove1 due (timers S) @ [finished + millisecondsUntilMidnight C finished]
   \<and> timers (run_cycle C due result finished S) \<noteq> []
   \<and> 0 \<le> millisecondsUntilMidnight (fixed_offset_clock off) finished
   \<and> millisecondsUntilMidnight (fixed_offset_clock off) finished < 86400000
   \<and> (finished + millisecondsUntilMidnight (fixed_offset_clock off) finished + off) mod 86400000 = 0"
proof -
  have a: "timers (run_cycle C due result finished S)
     = remove1 due (timers S) @ [finished + millisecondsUntilMidnight C finished]"
    by (cases result) (simp_all add: run_cycle_def timer_callback_def scheduleWeatherUpdate_def)
  define m where "m = ((finished + off) div 86400000) * 86400000 - off"
  have split: "finished + off = ((finished + off) div 86400000) * 86400000
                  + (finished + off) mod 86400000"
    by simp
  have lo: "0 \<le> (finished + off) mod 86400000" and hi: "(finished + off) mod 86400000 < 86400000"
    by simp_all
  have m1: "m \<le> finished" using split lo unfolding m_def by linarith
  have m2: "finished < m + 86400000" using split hi unfolding m_def by linarith
  have m3: "(m + off) mod 86400000 = 0" unfolding m_def by simp
  have ms: "millisecondsUntilMidnight (fixed_offset_clock off) finished
      = (if finished > m then m + 86400000 - finished else 0)"
    using m1 by (auto simp add: millisecondsUntilMidnight_def fixed_offset_clock_def Let_def m_def)
  have b: "0 \<le> millisecondsUntilMidnight (fixed_offset_clock off) finished"
    using ms m2 by simp
  have c: "millisecondsUntilMidnight (fixed_offset_clock off) finished < 86400000"
    using ms by simp
  have d: "(finished + millisecondsUntilMidnight (fixed_offset_clock off) finished + off)
             mod 86400000 = 0"
  proof (cases "finished > m")
    case True
    then have "finished + millisecondsUntilMidnight (fixed_offset_clock off) finished + off
      = (m + off) + 86400000" using ms by simp
    moreover have "((m + off) + 86400000) mod 86400000 = (m + off) mod 86400000"
      by (rule mod_add_self2)
    ultimately show ?thesis using m3 by (simp only:)
  next
    case False
    then have "finished = m" using m1 by simp
    then show ?thesis using ms m3 by simp
  qed
  show ?thesis using a b c d by simp
qed

text \<open>
  Claim C10. \<open>safeParseFloat\<close> never returns NaN, so the test for invalid coordinates
  never holds; a latitude or longitude that does not parse becomes 0, which is outside the
  bounding region, and the row is dropped: it adds nothing to the fires parsed.
\<close>

theorem unparseable_coordinate_dropped:
  "\<not> isNaN (safeParseFloat E v)
   \<and> (js_parseFloat E (m ''latitude'') = NaN \<longrightarrow> safeParseFloat E (m ''latitude'') = Num 0)
   \<and> (js_parseFloat E (m ''longitude'') = NaN \<longrightarrow> safeParseFloat E (m ''longitude'') = Num 0)
   \<and> outside_bounds (Num 0) lon \<and> outside_bounds lat (Num 0)
   \<and> (js_parseFloat E (m ''latitude'') = NaN \<or> js_parseFloat E (m ''longitude'') = NaN \<longrightarrow>
        normalizeRow E cities startDate endDate source_id m = None)
   \<and> (js_parseFloat E (make_fire headers (split CHR '','' line) ''latitude'') = NaN
        \<or> js_parseFloat E (make_fire headers (split CHR '','' line) ''longitude'') = NaN \<longrightarrow>
        parseLines E cities startDate endDate source_id headers (line # rest)
          = parseLines E cities startDate endDate source_id headers rest)"
proof -
  have "parseLines E cities startDate endDate source_id headers (line # rest)
          = parseLines E cities startDate endDate source_id headers rest"
    if "js_parseFloat E (make_fire headers (split CHR '','' line) ''latitude'') = NaN
        \<or> js_parseFloat E (make_fire headers (split CHR '','' line) ''longitude'') = NaN"
    using normalizeRow_unparseable [OF that, of cities startDate endDate source_id]
    by (simp add: Let_def)
  then show ?thesis
    using safeParseFloat_not_NaN [of E v] safeParseFloat_NaN [of E]
      outside_bounds_zero_lat [of lon] outside_bounds_zero_lon [of lat]
      normalizeRow_unparseable [of E m cities startDate endDate source_id]
    by blast
qed

theorem unparseable_coordinate_dropped_witness:
  "js_parseFloat env_a ((row_a(''latitude'' := Some ''abc'')) ''latitude'') = NaN
   \<and> safeParseFloat env_a ((row_a(''latitude'' := Some ''abc'')) ''latitude'') = Num 0
   \<and> normalizeRow env_a cities_a (Num start_a) (Num now_a) ''MODIS_NRT''
        (row_a(''latitude'' := Some ''abc'')) = None
   \<and> normalizeRow env_a cities_a (Num start_a) (Num now_a) ''MODIS_NRT'' row_a = Some fire_a
   \<and> make_fire [''latitude'', ''longitude'', ''acq_date'']
         (split CHR '','' ''-5.0,west,2024-01-15'') ''longitude'' = Some ''west''
   \<and> parseLines env_a cities_a (Num start_a) (Num now_a) ''MODIS_NRT''
         [''latitude'', ''longitude'', ''acq_date''] (''-5.0,west,2024-01-15'' # []) = []"
proof -
  have a: "js_parseFloat env_a ((row_a(''latitude'' := Some ''abc'')) ''latitude'') = NaN"
    by (simp add: js_parseFloat_def env_a_def dec_parseFloat_def take_sign_def is_space_def
          is_digit_def)
  note t = unparseable_coordinate_dropped [of env_a "Some ''abc''"
      "row_a(''latitude'' := Some ''abc'')" NaN NaN cities_a "Num start_a" "Num now_a"
      "''MODIS_NRT''" "[''latitude'', ''longitude'', ''acq_date'']" "''-5.0,west,2024-01-15''"
      "[]"]
  have b: "safeParseFloat env_a ((row_a(''latitude'' := Some ''abc'')) ''latitude'') = Num 0"
    using t a by blast
  have c: "normalizeRow env_a cities_a (Num start_a) (Num now_a) ''MODIS_NRT''
        (row_a(''latitude'' := Some ''abc'')) = None"
    using t a by blast
  have d: "make_fire [''latitude'', ''longitude'', ''acq_date'']
         (split CHR '','' ''-5.0,west,2024-01-15'') ''longitude'' = Some ''west''"
    by (simp add: make_fire_def set_field_def trim_def is_space_def)
  have e: "js_parseFloat env_a (Some ''west'') = NaN"
    by (simp add: js_parseFloat_def env_a_def dec_parseFloat_def take_sign_def is_space_def
          is_digit_def)
  have f: "parseLines env_a cities_a (Num start_a) (Num now_a) ''MODIS_NRT''
         [''latitude'', ''longitude'', ''acq_date''] (''-5.0,west,2024-01-15'' # []) = []"
  proof -
    have "js_parseFloat env_a (make_fire [''latitude'', ''longitude'', ''acq_date'']
         (split CHR '','' ''-5.0,west,2024-01-15'') ''longitude'') = NaN"
      using d e by (simp only:)
    then have "parseLines env_a cities_a (Num start_a) (Num now_a) ''MODIS_NRT''
         [''latitude'', ''longitude'', ''acq_date''] (''-5.0,west,2024-01-15'' # [])
       = parseLines env_a cities_a (Num start_a) (Num now_a) ''MODIS_NRT''
         [''latitude'', ''longitude'', ''acq_date''] []"
      using t by blast
    then show ?thesis by (simp only: parseLines.simps(1))
  qed
  show ?thesis using a b c d f normalizeRow_row_a by blast
qed

end
